theory Spec2Isabelle
  imports Main "HOL-Library.AList" "HOL-Library.Sublist"
begin

section \<open>JavaScript values\<close>

text \<open>
  The values that flow through the cache and the hub are decoded protobuf messages and
  parsed JSON payloads: primitives, arrays and plain objects. The type \<open>'n\<close> stands for
  the IEEE-754 numbers of JavaScript; nothing below depends on how they are represented.
  An object is its list of own properties in insertion order, one binding per key.
  A \<open>Map\<close> is modelled the same way (\<open>Map.set\<close> keeps the position of an existing key
  and appends a new one, which is \<open>AList.update\<close>; \<open>Map.delete\<close> is \<open>AList.delete\<close>;
  \<open>Map.get\<close> is \<open>map_of\<close>; \<open>Map.size\<close> is the length), and a \<open>Set\<close> is the list of its
  elements in insertion order.

  Keys of a \<open>Map\<close> and elements of a \<open>Set\<close> are compared by value, which is what
  JavaScript does for strings, numbers, booleans and \<open>null\<close>. An array or an object used
  as a key would be compared by reference, so a statement that relies on two separately
  received keys being equal is made for primitive keys only (\<open>primitive\<close> below); symbols
  are strings.
\<close>

datatype 'n jsval =
    JUndefined
  | JNull
  | JBool bool
  | JNum 'n
  | JStr string
  | JArr "'n jsval list"
  | JObj "(string \<times> 'n jsval) list"

type_synonym 'n obj = "(string \<times> 'n jsval) list"

text \<open>The exceptions that the modelled code can meet; \<open>DecodeError\<close> is any throw of the
  protobuf decoder and \<open>LoadError\<close> a failure to load the protobuf schema.\<close>

datatype exn = SyntaxError | TypeError | DecodeError | LoadError

text \<open>
  What the language and its standard library supply: \<open>JSON.parse\<close> (which may throw),
  \<open>JSON.stringify\<close>, and the arithmetic on numbers. \<open>num_sub\<close>, \<open>num_div\<close> and
  \<open>num_mul\<close> are the binary operators \<open>-\<close>, \<open>/\<close> and \<open>*\<close> with their coercion of
  operands; \<open>num_truthy\<close> says that a number is neither zero nor \<open>NaN\<close>;
  \<open>num_toFixed0\<close> is \<open>n.toFixed(0)\<close> and \<open>num_of_string\<close> is \<open>Number(text)\<close>;
  \<open>num_zero\<close> and \<open>num_hundred\<close> are the literals \<open>0\<close> and \<open>100\<close>.
\<close>

record 'n builtins =
  json_parse :: "string \<Rightarrow> exn + 'n jsval"
  json_stringify :: "'n jsval \<Rightarrow> string"
  num_truthy :: "'n \<Rightarrow> bool"
  num_sub :: "'n jsval \<Rightarrow> 'n jsval \<Rightarrow> 'n jsval"
  num_div :: "'n jsval \<Rightarrow> 'n jsval \<Rightarrow> 'n jsval"
  num_mul :: "'n jsval \<Rightarrow> 'n jsval \<Rightarrow> 'n jsval"
  num_toFixed0 :: "'n \<Rightarrow> string"
  num_of_string :: "string \<Rightarrow> 'n"
  num_zero :: 'n
  num_hundred :: 'n

definition truthy :: "'n builtins \<Rightarrow> 'n jsval \<Rightarrow> bool" where
  "truthy B v =
     (case v of
        JUndefined \<Rightarrow> False
      | JNull \<Rightarrow> False
      | JBool b \<Rightarrow> b
      | JNum n \<Rightarrow> num_truthy B n
      | JStr s \<Rightarrow> s \<noteq> []
      | JArr _ \<Rightarrow> True
      | JObj _ \<Rightarrow> True)"

definition primitive :: "'n jsval \<Rightarrow> bool" where
  "primitive v = (case v of JArr _ \<Rightarrow> False | JObj _ \<Rightarrow> False | _ \<Rightarrow> True)"

definition is_number :: "'n jsval \<Rightarrow> bool" where
  "is_number v = (case v of JNum _ \<Rightarrow> True | _ \<Rightarrow> False)"

text \<open>\<open>a || b\<close> and \<open>a ?? b\<close>.\<close>

definition or_else :: "'n builtins \<Rightarrow> 'n jsval \<Rightarrow> 'n jsval \<Rightarrow> 'n jsval" where
  "or_else B v d = (if truthy B v then v else d)"

definition nullish :: "'n jsval \<Rightarrow> 'n jsval \<Rightarrow> 'n jsval" where
  "nullish v d = (case v of JUndefined \<Rightarrow> d | JNull \<Rightarrow> d | _ \<Rightarrow> v)"

text \<open>\<open>ob.k\<close> on a plain object: the value of the property, \<open>undefined\<close> when there is none.\<close>

definition get_prop :: "'n obj \<Rightarrow> string \<Rightarrow> 'n jsval" where
  "get_prop ob k = (case map_of ob k of None \<Rightarrow> JUndefined | Some v \<Rightarrow> v)"

text \<open>
  Reading a property from any value, for the property names the code reads (\<open>symbols\<close>,
  \<open>price\<close>, \<open>volume\<close>), none of which a builtin prototype defines: \<open>v.k\<close> throws a
  \<open>TypeError\<close> on \<open>null\<close> and \<open>undefined\<close>, and \<open>v?.k\<close> gives \<open>undefined\<close> there.
\<close>

definition own_member :: "'n jsval \<Rightarrow> string \<Rightarrow> 'n jsval" where
  "own_member v k = (case v of JObj ob \<Rightarrow> get_prop ob k | _ \<Rightarrow> JUndefined)"

definition member :: "'n jsval \<Rightarrow> string \<Rightarrow> exn + 'n jsval" where
  "member v k =
     (case v of
        JUndefined \<Rightarrow> Inl TypeError
      | JNull \<Rightarrow> Inl TypeError
      | _ \<Rightarrow> Inr (own_member v k))"

definition opt_member :: "'n jsval \<Rightarrow> string \<Rightarrow> 'n jsval" where
  "opt_member v k =
     (case v of JUndefined \<Rightarrow> JUndefined | JNull \<Rightarrow> JUndefined | _ \<Rightarrow> own_member v k)"

text \<open>
  \<open>v[i]\<close> for the indices 0, 1 and 2, on a value that is neither \<open>null\<close> nor
  \<open>undefined\<close> (the code indexes \<open>x || []\<close> only): an element of an array, a character
  of a string, the property named by the digit on an object.
\<close>

definition index_name :: "nat \<Rightarrow> string" where
  "index_name i = [char_of (48 + i)]"

definition element :: "'n jsval \<Rightarrow> nat \<Rightarrow> 'n jsval" where
  "element v i =
     (case v of
        JArr xs \<Rightarrow> (if i < length xs then xs ! i else JUndefined)
      | JStr str \<Rightarrow> (if i < length str then JStr [str ! i] else JUndefined)
      | JObj ob \<Rightarrow> get_prop ob (index_name i)
      | _ \<Rightarrow> JUndefined)"

text \<open>
  \<open>v.includes(p)\<close> for a string \<open>p\<close>: substring search on a string, membership on an
  array, and a \<open>TypeError\<close> on every other value, which has no such method.
\<close>

fun str_includes :: "string \<Rightarrow> string \<Rightarrow> bool" where
  "str_includes [] p = (p = [])"
| "str_includes (x # xs) p = (prefix p (x # xs) \<or> str_includes xs p)"

definition js_includes :: "'n jsval \<Rightarrow> string \<Rightarrow> exn + bool" where
  "js_includes v p =
     (case v of
        JStr str \<Rightarrow> Inr (str_includes str p)
      | JArr xs \<Rightarrow> Inr (JStr p \<in> set xs)
      | _ \<Rightarrow> Inl TypeError)"

text \<open>
  The object literal \<open>{ ...a, ...b }\<close>: the properties of \<open>a\<close>, then each property of
  \<open>b\<close> in order, replacing the value of a key that is already there and appending a new key.
\<close>

definition spread :: "'n obj \<Rightarrow> 'n obj \<Rightarrow> 'n obj" where
  "spread a b = fold (\<lambda>(k, v). AList.update k v) b a"

text \<open>\<open>Set.add\<close> and \<open>Set.delete\<close> on a set kept as the list of its elements, and the
  elements of the set stored under a key of a \<open>Map\<close> (none when the key is absent).\<close>

definition set_add :: "'a \<Rightarrow> 'a list \<Rightarrow> 'a list" where
  "set_add x xs = (if x \<in> set xs then xs else xs @ [x])"

definition set_delete :: "'a \<Rightarrow> 'a list \<Rightarrow> 'a list" where
  "set_delete x xs = removeAll x xs"

definition members :: "('k \<times> 'a list) list \<Rightarrow> 'k \<Rightarrow> 'a list" where
  "members m k = (case map_of m k of None \<Rightarrow> [] | Some xs \<Rightarrow> xs)"

section \<open>CacheManager\<close>

record cache_stats =
  symbolsCount :: nat
  stockDataCount :: nat
  groupsCount :: nat
  marketIndexesCount :: nat
  companiesCount :: nat

record 'n cache =
  symbols :: "('n jsval \<times> 'n jsval) list"
  stockData :: "('n jsval \<times> 'n obj) list"
  symbolsByGroup :: "(string \<times> 'n jsval list) list"
  marketIndexes :: "('n jsval \<times> 'n obj) list"
  companies :: "'n jsval list"
  lastUpdate :: nat
  isInitialized :: bool
  stats :: cache_stats

text \<open>The constructor; \<open>now\<close> is the value of \<open>new Date()\<close>.\<close>

definition newCacheManager :: "nat \<Rightarrow> 'n cache" where
  "newCacheManager now =
     \<lparr>symbols = [], stockData = [], symbolsByGroup = [], marketIndexes = [], companies = [],
      lastUpdate = now, isInitialized = False,
      stats = \<lparr>symbolsCount = 0, stockDataCount = 0, groupsCount = 0,
               marketIndexesCount = 0, companiesCount = 0\<rparr>\<rparr>"

definition setStockData :: "'n jsval \<Rightarrow> 'n obj \<Rightarrow> 'n cache \<Rightarrow> 'n cache" where
  "setStockData symbol data c =
     (let sd = AList.update symbol data (stockData c)
      in c\<lparr>stockData := sd, stats := (stats c)\<lparr>stockDataCount := length sd\<rparr>\<rparr>)"

text \<open>
  \<open>setMultipleStockData\<close> walks \<open>Object.entries(stockDataMap)\<close>; the argument here is that
  list of entries, whose keys are the property names of the payload object.
\<close>

definition setMultipleStockData :: "(string \<times> 'n obj) list \<Rightarrow> 'n cache \<Rightarrow> 'n cache" where
  "setMultipleStockData entries c =
     fold (\<lambda>(symbol, data) c'. setStockData (JStr symbol) data c') entries c"

definition setMarketIndex :: "'n jsval \<Rightarrow> 'n obj \<Rightarrow> 'n cache \<Rightarrow> 'n cache" where
  "setMarketIndex symbol data c =
     (let mi = AList.update symbol data (marketIndexes c)
      in c\<lparr>marketIndexes := mi, stats := (stats c)\<lparr>marketIndexesCount := length mi\<rparr>\<rparr>)"

text \<open>
  \<open>existingData = this.stockData.get(symbol) || {}\<close>: every stored record is an object,
  hence truthy, so the empty object stands in exactly when the symbol has no entry.
\<close>

definition existingData :: "'n cache \<Rightarrow> 'n jsval \<Rightarrow> 'n obj" where
  "existingData c symbol = (case map_of (stockData c) symbol of None \<Rightarrow> [] | Some d \<Rightarrow> d)"

definition updateStockData :: "'n jsval \<Rightarrow> 'n obj \<Rightarrow> 'n cache \<Rightarrow> 'n cache" where
  "updateStockData symbol updateData c =
     setStockData symbol (spread (existingData c symbol) updateData) c"

text \<open>A sequence of partial updates to one symbol, applied in arrival order.\<close>

definition applyUpdates :: "'n jsval \<Rightarrow> 'n obj list \<Rightarrow> 'n cache \<Rightarrow> 'n cache" where
  "applyUpdates symbol us c = fold (updateStockData symbol) us c"

section \<open>BroadcastService\<close>

text \<open>
  A client socket as the hub sees it: whether it is connected, and whether a call of
  \<open>socket.emit\<close> on it throws (the code catches that throw). The hub keeps the two
  subscription indexes and the connected sockets; client identifiers are socket ids.
\<close>

record sock =
  connected :: bool
  emit_throws :: bool

record 'n hub =
  clientSubscriptions :: "(string \<times> 'n jsval list) list"
  symbolSubscribers :: "('n jsval \<times> string list) list"
  connectedClients :: "(string \<times> sock) list"

definition newBroadcastService :: "'n hub" where
  "newBroadcastService = \<lparr>clientSubscriptions = [], symbolSubscribers = [], connectedClients = []\<rparr>"

text \<open>The \<open>connection\<close> event of \<open>setupEventHandlers\<close>.\<close>

definition onConnection :: "string \<Rightarrow> sock \<Rightarrow> 'n hub \<Rightarrow> 'n hub" where
  "onConnection clientId socket h =
     h\<lparr>connectedClients := AList.update clientId socket (connectedClients h)\<rparr>"

text \<open>
  The head of \<open>handleSubscription\<close> and of \<open>handleUnsubscription\<close>: the payload is parsed
  when it is a string, \<open>parsedData.symbols || []\<close> is read, and the result is the array of
  symbols, \<open>None\<close> when that value is not an array (the handler warns and returns), or the
  exception that the enclosing \<open>try\<close> catches.
\<close>

definition parse_symbols :: "'n builtins \<Rightarrow> 'n jsval \<Rightarrow> exn + 'n jsval list option" where
  "parse_symbols B data =
     (case (case data of JStr str \<Rightarrow> json_parse B str | _ \<Rightarrow> Inr data) of
        Inl e \<Rightarrow> Inl e
      | Inr parsedData \<Rightarrow>
          (case member parsedData ''symbols'' of
             Inl e \<Rightarrow> Inl e
           | Inr v \<Rightarrow>
               (case or_else B v (JArr []) of
                  JArr syms \<Rightarrow> Inr (Some syms)
                | _ \<Rightarrow> Inr None)))"

text \<open>The body of the \<open>forEach\<close> of \<open>handleSubscription\<close>, for one symbol.\<close>

definition add_subscriber ::
  "string \<Rightarrow> 'n jsval \<Rightarrow> ('n jsval \<times> string list) list \<Rightarrow> ('n jsval \<times> string list) list" where
  "add_subscriber clientId symbol subs =
     AList.update symbol (set_add clientId (members subs symbol)) subs"

definition add_symbol :: "string \<Rightarrow> 'n jsval \<Rightarrow> 'n hub \<Rightarrow> 'n hub" where
  "add_symbol clientId symbol h =
     h\<lparr>clientSubscriptions :=
         AList.update clientId (set_add symbol (members (clientSubscriptions h) clientId))
           (clientSubscriptions h),
       symbolSubscribers := add_subscriber clientId symbol (symbolSubscribers h)\<rparr>"

text \<open>The argument \<open>eventType\<close> is only used in a log line that is commented out.\<close>

definition handleSubscription ::
  "'n builtins \<Rightarrow> string \<Rightarrow> string \<Rightarrow> 'n jsval \<Rightarrow> 'n hub \<Rightarrow> 'n hub" where
  "handleSubscription B clientId eventType data h =
     (case parse_symbols B data of
        Inl e \<Rightarrow> h
      | Inr None \<Rightarrow> h
      | Inr (Some syms) \<Rightarrow>
          fold (add_symbol clientId) syms
            (if map_of (clientSubscriptions h) clientId = None
             then h\<lparr>clientSubscriptions := AList.update clientId [] (clientSubscriptions h)\<rparr>
             else h))"

text \<open>
  Removing a client from the subscriber set of one symbol, with the clean-up of an entry
  that becomes empty; \<open>handleUnsubscription\<close> and \<open>handleDisconnection\<close> both do this.
\<close>

definition remove_subscriber ::
  "string \<Rightarrow> 'n jsval \<Rightarrow> ('n jsval \<times> string list) list \<Rightarrow> ('n jsval \<times> string list) list" where
  "remove_subscriber clientId symbol subs =
     (case map_of subs symbol of
        None \<Rightarrow> subs
      | Some symbolSubs \<Rightarrow>
          (if length (set_delete clientId symbolSubs) = 0
           then AList.delete symbol subs
           else AList.update symbol (set_delete clientId symbolSubs) subs))"

definition remove_symbol :: "string \<Rightarrow> 'n jsval \<Rightarrow> 'n hub \<Rightarrow> 'n hub" where
  "remove_symbol clientId symbol h =
     h\<lparr>clientSubscriptions :=
         AList.update clientId (set_delete symbol (members (clientSubscriptions h) clientId))
           (clientSubscriptions h),
       symbolSubscribers := remove_subscriber clientId symbol (symbolSubscribers h)\<rparr>"

definition handleUnsubscription ::
  "'n builtins \<Rightarrow> string \<Rightarrow> string \<Rightarrow> 'n jsval \<Rightarrow> 'n hub \<Rightarrow> 'n hub" where
  "handleUnsubscription B clientId eventType data h =
     (case parse_symbols B data of
        Inl e \<Rightarrow> h
      | Inr None \<Rightarrow> h
      | Inr (Some syms) \<Rightarrow>
          (case map_of (clientSubscriptions h) clientId of
             None \<Rightarrow> h
           | Some clientSymbols \<Rightarrow> fold (remove_symbol clientId) syms h))"

definition handleDisconnection :: "string \<Rightarrow> 'n hub \<Rightarrow> 'n hub" where
  "handleDisconnection clientId h =
     (let h' =
        (case map_of (clientSubscriptions h) clientId of
           None \<Rightarrow> h
         | Some clientSymbols \<Rightarrow>
             h\<lparr>symbolSubscribers :=
                 fold (remove_subscriber clientId) clientSymbols (symbolSubscribers h),
               clientSubscriptions := AList.delete clientId (clientSubscriptions h)\<rparr>)
      in h'\<lparr>connectedClients := AList.delete clientId (connectedClients h')\<rparr>)"

text \<open>
  What the process does to the outside, in the order it does it: a call of
  \<open>convertToBinaryData\<close> on a payload, a call of \<open>emit\<close> on the socket of a client
  (client, event, bytes), a call of \<open>emit\<close> (event, text) or of \<open>disconnect\<close> on the
  upstream socket, and the lines written to the console.
\<close>

datatype 'n effect =
    Serialize "'n jsval"
  | Emit string string string
  | UpstreamEmit string string
  | UpstreamDisconnect
  | ConsoleLog string
  | ConsoleWarn string
  | ConsoleError string

text \<open>\<open>Buffer.from(JSON.stringify(data))\<close>; a buffer is the string of its bytes.\<close>

definition convertToBinaryData :: "'n builtins \<Rightarrow> 'n jsval \<Rightarrow> string" where
  "convertToBinaryData B data = json_stringify B data"

text \<open>The body of the \<open>forEach\<close> of \<open>broadcastUpdate\<close>, for one subscriber.\<close>

definition send_update :: "'n hub \<Rightarrow> string \<Rightarrow> string \<Rightarrow> string \<Rightarrow> 'n effect list" where
  "send_update h eventType binaryData clientId =
     (case map_of (connectedClients h) clientId of
        None \<Rightarrow> [ConsoleWarn ''[BROADCAST] Client not connected, skipping'']
      | Some socket \<Rightarrow>
          (if connected socket
           then Emit clientId eventType binaryData #
                  (if emit_throws socket
                   then [ConsoleError ''[BROADCAST] Error sending to client''] else [])
           else [ConsoleWarn ''[BROADCAST] Client not connected, skipping'']))"

text \<open>\<open>broadcastUpdate\<close> changes nothing in the hub; its result is what it does.\<close>

definition broadcastUpdate ::
  "'n builtins \<Rightarrow> 'n jsval \<Rightarrow> string \<Rightarrow> 'n jsval \<Rightarrow> 'n hub \<Rightarrow> 'n effect list" where
  "broadcastUpdate B symbol eventType data h =
     (case map_of (symbolSubscribers h) symbol of
        None \<Rightarrow> []
      | Some subscribers \<Rightarrow>
          (if length subscribers = 0 then []
           else Serialize data #
                  concat (map (send_update h eventType (convertToBinaryData B data)) subscribers)))"

text \<open>
  The events that reach the hub from its clients, as \<open>setupEventHandlers\<close> registers them:
  a connection, a subscription (\<open>match-price\<close> or \<open>bid-ask\<close>) and an unsubscription
  (\<open>unsubscribe-match-price\<close> or \<open>unsubscribe-bid-ask\<close>), each with its event type and
  payload, and a disconnection. A run starts from the hub that the constructor builds.
\<close>

datatype 'n hub_event =
    Connection string sock
  | Subscribe string string "'n jsval"
  | Unsubscribe string string "'n jsval"
  | Disconnect string

fun hub_step :: "'n builtins \<Rightarrow> 'n hub_event \<Rightarrow> 'n hub \<Rightarrow> 'n hub" where
  "hub_step B (Connection clientId socket) h = onConnection clientId socket h"
| "hub_step B (Subscribe clientId eventType data) h = handleSubscription B clientId eventType data h"
| "hub_step B (Unsubscribe clientId eventType data) h = handleUnsubscription B clientId eventType data h"
| "hub_step B (Disconnect clientId) h = handleDisconnection clientId h"

definition run_hub :: "'n builtins \<Rightarrow> 'n hub_event list \<Rightarrow> 'n hub" where
  "run_hub B evs = fold (hub_step B) evs newBroadcastService"

section \<open>RealtimeManager and the wiring of startServer\<close>

text \<open>
  The state of the manager that its methods and handlers read and write: whether
  \<open>this.socket\<close> is set, the connection flag, the counter of attempts with its
  maximum, and \<open>this.symbols\<close>. The message types and the callback are set once by
  \<open>initialize\<close> and are arguments of \<open>handleMessage\<close> below.
\<close>

record 'n realtime =
  has_socket :: bool
  isConnected :: bool
  reconnectAttempts :: nat
  maxReconnectAttempts :: nat
  feed_symbols :: "'n jsval list"

definition newRealtimeManager :: "'n realtime" where
  "newRealtimeManager =
     \<lparr>has_socket = False, isConnected = False, reconnectAttempts = 0, maxReconnectAttempts = 5,
      feed_symbols = []\<rparr>"

text \<open>
  The singletons of the process: the cache, the hub and the upstream connection, with
  the trace of what has been done to the outside so far.
\<close>

record 'n world =
  cacheManager :: "'n cache"
  broadcastService :: "'n hub"
  realtimeManager :: "'n realtime"
  effects :: "'n effect list"

definition console :: "'n effect \<Rightarrow> 'n world \<Rightarrow> 'n world" where
  "console e w = w\<lparr>effects := effects w @ [e]\<rparr>"

text \<open>\<open>prices[i]?.k ?? 0\<close>, one cell of the order book.\<close>

definition level :: "'n builtins \<Rightarrow> 'n jsval \<Rightarrow> nat \<Rightarrow> string \<Rightarrow> 'n jsval" where
  "level B prices i k = nullish (opt_member (element prices i) k) (JNum (num_zero B))"

text \<open>
  \<open>v ? Number(v.toFixed(0)) : v\<close>: only a number has \<open>toFixed\<close>, so any other truthy value
  makes the call throw a \<open>TypeError\<close>.
\<close>

definition average_price :: "'n builtins \<Rightarrow> 'n jsval \<Rightarrow> exn + 'n jsval" where
  "average_price B v =
     (if truthy B v
      then (case v of
              JNum n \<Rightarrow> Inr (JNum (num_of_string B (num_toFixed0 B n)))
            | _ \<Rightarrow> Inl TypeError)
      else Inr v)"

text \<open>
  \<open>updateCache\<close>. The object literals are built before the cache is touched, so a throw
  leaves the cache as it was.
\<close>

definition updateCache :: "'n builtins \<Rightarrow> 'n obj \<Rightarrow> string \<Rightarrow> 'n world \<Rightarrow> exn + 'n world" where
  "updateCache B message type w =
     (let symbol = get_prop message ''symbol'' in
      if type = ''match-price'' then
        (case average_price B (get_prop message ''avgMatchPrice'') of
           Inl e \<Rightarrow> Inl e
         | Inr tb \<Rightarrow>
             Inr (w\<lparr>cacheManager :=
                   updateStockData symbol
                     [(''khopLenhGia'', get_prop message ''matchPrice''),
                      (''khopLenhKL'', get_prop message ''matchVol''),
                      (''khopLenhChange'',
                         num_sub B (get_prop message ''matchPrice'') (get_prop message ''referencePrice'')),
                      (''khopLenhPercent'',
                         num_mul B
                           (num_div B
                              (num_sub B (get_prop message ''matchPrice'')
                                 (get_prop message ''referencePrice''))
                              (get_prop message ''referencePrice''))
                           (JNum (num_hundred B))),
                      (''khopLenhKLGD'', get_prop message ''accumulatedVolume''),
                      (''khopLenhGTGD'', get_prop message ''accumulatedValue''),
                      (''gtgdTT'', get_prop message ''accumulatedValue''),
                      (''nnRoom'', get_prop message ''currentRoom''),
                      (''nnMua'', get_prop message ''foreignBuyVolume''),
                      (''nnBan'', get_prop message ''foreignSellVolume''),
                      (''tb'', tb),
                      (''cao'', get_prop message ''highest''),
                      (''thap'', get_prop message ''lowest'')]
                     (cacheManager w)\<rparr>))
      else if type = ''bid-ask'' then
        (let bidPrices = or_else B (get_prop message ''bidPrices'') (JArr []);
             askPrices = or_else B (get_prop message ''askPrices'') (JArr [])
         in Inr (w\<lparr>cacheManager :=
                   updateStockData symbol
                     [(''duMuaGia1'', level B bidPrices 0 ''price''),
                      (''duMuaKL1'', level B bidPrices 0 ''volume''),
                      (''duMuaGia2'', level B bidPrices 1 ''price''),
                      (''duMuaKL2'', level B bidPrices 1 ''volume''),
                      (''duMuaGia3'', level B bidPrices 2 ''price''),
                      (''duMuaKL3'', level B bidPrices 2 ''volume''),
                      (''duBanGia1'', level B askPrices 0 ''price''),
                      (''duBanKL1'', level B askPrices 0 ''volume''),
                      (''duBanGia2'', level B askPrices 1 ''price''),
                      (''duBanKL2'', level B askPrices 1 ''volume''),
                      (''duBanGia3'', level B askPrices 2 ''price''),
                      (''duBanKL3'', level B askPrices 2 ''volume'')]
                     (cacheManager w)\<rparr>))
      else if type = ''index'' then
        (case js_includes symbol ''VN30'' of
           Inl e \<Rightarrow> Inl e
         | Inr False \<Rightarrow> Inr w
         | Inr True \<Rightarrow>
             Inr ((console (ConsoleLog ''[CACHE-UPDATE] Updated index'') w)
                    \<lparr>cacheManager :=
                       setMarketIndex symbol
                         [(''code'', get_prop message ''code''),
                          (''symbol'', get_prop message ''symbol''),
                          (''price'', get_prop message ''price''),
                          (''change'', get_prop message ''change''),
                          (''changePercent'', get_prop message ''changePercent''),
                          (''totalShares'', get_prop message ''totalShares''),
                          (''totalValue'', get_prop message ''totalValue''),
                          (''totalStockIncrease'', get_prop message ''totalStockIncrease''),
                          (''totalStockDecline'', get_prop message ''totalStockDecline''),
                          (''totalStockNoChange'', get_prop message ''totalStockNoChange''),
                          (''totalStockCeiling'', get_prop message ''totalStockCeiling''),
                          (''totalStockFloor'', get_prop message ''totalStockFloor''),
                          (''estimatedChange'', get_prop message ''estimatedChange''),
                          (''estimatedFsp'', get_prop message ''estimatedFsp''),
                          (''time'', get_prop message ''time''),
                          (''messageType'', JStr ''index''),
                          (''sendingTime'', get_prop message ''time'')]
                         (cacheManager w)\<rparr>))
      else Inr w)"

text \<open>
  \<open>handleMessage\<close>. A message type of \<open>this.messageTypes\<close> is its decoder, from the raw
  bytes to the decoded object (\<open>decode\<close> followed by \<open>toObject\<close>), which may throw. The
  body of the \<open>try\<close> comes first, then the handler with its \<open>catch\<close>, which logs and
  returns normally. The callback is the one given to \<open>initialize\<close>.
\<close>

type_synonym 'n decoder = "string \<Rightarrow> exn + 'n obj"

type_synonym 'n callback = "'n obj \<Rightarrow> string \<Rightarrow> 'n world \<Rightarrow> 'n world"

definition handleMessage_try ::
  "'n builtins \<Rightarrow> (string \<times> 'n decoder) list \<Rightarrow> 'n callback option \<Rightarrow> string \<Rightarrow> string
     \<Rightarrow> 'n world \<Rightarrow> exn + 'n world" where
  "handleMessage_try B messageTypes onUpdateCallback type data w =
     (case map_of messageTypes type of
        None \<Rightarrow> Inr (console (ConsoleWarn ''[SOCKET-MSG] Unknown message type'') w)
      | Some messageType \<Rightarrow>
          (case messageType data of
             Inl e \<Rightarrow> Inl e
           | Inr decodedMessage \<Rightarrow>
               (if \<not> truthy B (get_prop decodedMessage ''symbol'')
                then Inr (console (ConsoleWarn ''[SOCKET-MSG] Missing symbol'') w)
                else (case updateCache B decodedMessage type w of
                        Inl e \<Rightarrow> Inl e
                      | Inr w' \<Rightarrow>
                          (case onUpdateCallback of
                             None \<Rightarrow> Inr w'
                           | Some callback \<Rightarrow> Inr (callback decodedMessage type w'))))))"

definition handleMessage ::
  "'n builtins \<Rightarrow> (string \<times> 'n decoder) list \<Rightarrow> 'n callback option \<Rightarrow> string \<Rightarrow> string
     \<Rightarrow> 'n world \<Rightarrow> 'n world" where
  "handleMessage B messageTypes onUpdateCallback type data w =
     (case handleMessage_try B messageTypes onUpdateCallback type data w of
        Inl e \<Rightarrow> console (ConsoleError ''[SOCKET-MSG] Error processing message'') w
      | Inr w' \<Rightarrow> w')"

text \<open>
  The callback that \<open>startServer\<close> passes to \<open>realtimeManager.initialize\<close>:
  \<open>broadcastService.broadcastUpdate(message.symbol, type, message)\<close>.
\<close>

definition startServer_onUpdate :: "'n builtins \<Rightarrow> 'n callback" where
  "startServer_onUpdate B message type w =
     w\<lparr>effects := effects w
          @ broadcastUpdate B (get_prop message ''symbol'') type (JObj message) (broadcastService w)\<rparr>"

text \<open>
  The handlers that \<open>setupSocketEventHandlers\<close> registers on the upstream socket for
  \<open>connect\<close>, \<open>disconnect\<close> and \<open>connect_error\<close>, and \<open>subscribeToSymbols\<close>. Opening the
  connection and retrying it is the work of the socket library, which \<open>setupSocket\<close>
  configures with \<open>reconnection: true\<close> and \<open>reconnectionAttempts: 5\<close>; the rule by
  which the library raises these events is modelled further below.
\<close>

definition subscribeToSymbols :: "'n builtins \<Rightarrow> 'n world \<Rightarrow> 'n world" where
  "subscribeToSymbols B w =
     (if \<not> has_socket (realtimeManager w) \<or> \<not> isConnected (realtimeManager w)
      then console (ConsoleWarn ''[REALTIME] Cannot subscribe - socket not connected'') w
      else (let subscriptionMessage =
                  json_stringify B (JObj [(''symbols'', JArr (feed_symbols (realtimeManager w)))])
            in w\<lparr>effects := effects w @
                 [UpstreamEmit ''match-price'' subscriptionMessage,
                  UpstreamEmit ''bid-ask'' subscriptionMessage,
                  UpstreamEmit ''index''
                    (json_stringify B
                       (JObj [(''symbols'',
                          JArr [JStr ''VN30'', JStr ''VNINDEX'', JStr ''HNX30'', JStr ''HNXIndex'',
                                JStr ''HNXUpcomIndex''])]))]\<rparr>))"

definition on_connect :: "'n builtins \<Rightarrow> 'n world \<Rightarrow> 'n world" where
  "on_connect B w =
     subscribeToSymbols B
       (w\<lparr>realtimeManager := (realtimeManager w)\<lparr>isConnected := True, reconnectAttempts := 0\<rparr>\<rparr>)"

definition on_disconnect :: "'n world \<Rightarrow> 'n world" where
  "on_disconnect w = w\<lparr>realtimeManager := (realtimeManager w)\<lparr>isConnected := False\<rparr>\<rparr>"

definition on_connect_error :: "'n world \<Rightarrow> 'n world" where
  "on_connect_error w =
     (let rt = (realtimeManager w)\<lparr>reconnectAttempts := reconnectAttempts (realtimeManager w) + 1\<rparr>;
          w1 = console (ConsoleError ''[REALTIME] Connection attempt failed'')
                 (w\<lparr>realtimeManager := rt\<rparr>)
      in if reconnectAttempts rt \<ge> maxReconnectAttempts rt
         then console (ConsoleError ''[REALTIME] Max reconnection attempts reached'') w1
         else w1)"

text \<open>
  The methods of the manager that a caller can invoke. \<open>initialize\<close> stores the symbols,
  loads the schema (which may fail: both \<open>catch\<close> blocks log and rethrow) and sets up a
  new socket; its result is the exception, if any, with the world. \<open>getStatus\<close> only
  reads. None of them is a command to reconnect.
\<close>

definition initialize :: "'n jsval list \<Rightarrow> bool \<Rightarrow> 'n world \<Rightarrow> exn option \<times> 'n world" where
  "initialize syms schema_loads w =
     (let w1 = w\<lparr>realtimeManager := (realtimeManager w)\<lparr>feed_symbols := syms\<rparr>\<rparr>
      in if \<not> schema_loads
         then (Some LoadError,
               console (ConsoleError ''[REALTIME] Failed to initialize'')
                 (console (ConsoleError ''[REALTIME] Failed to load protobuf schema'') w1))
         else (None, w1\<lparr>realtimeManager := (realtimeManager w1)\<lparr>has_socket := True\<rparr>\<rparr>))"

definition updateSymbols :: "'n builtins \<Rightarrow> 'n jsval list \<Rightarrow> 'n world \<Rightarrow> 'n world" where
  "updateSymbols B newSymbols w =
     (let w1 = w\<lparr>realtimeManager := (realtimeManager w)\<lparr>feed_symbols := newSymbols\<rparr>\<rparr>
      in if isConnected (realtimeManager w1) then subscribeToSymbols B w1 else w1)"

definition cleanup :: "'n world \<Rightarrow> 'n world" where
  "cleanup w =
     (let w1 =
        (if has_socket (realtimeManager w)
         then (if isConnected (realtimeManager w)
               then w\<lparr>effects := effects w @ [UpstreamDisconnect]\<rparr> else w)
                \<lparr>realtimeManager := (realtimeManager w)\<lparr>has_socket := False\<rparr>\<rparr>
         else w)
      in w1\<lparr>realtimeManager := (realtimeManager w1)\<lparr>isConnected := False\<rparr>\<rparr>)"

datatype 'n command =
    Initialize "'n jsval list" bool
  | SubscribeToSymbols
  | UpdateSymbols "'n jsval list"
  | GetStatus
  | Cleanup

fun invoke :: "'n builtins \<Rightarrow> 'n command \<Rightarrow> 'n world \<Rightarrow> 'n world" where
  "invoke B (Initialize syms schema_loads) w = snd (initialize syms schema_loads w)"
| "invoke B SubscribeToSymbols w = subscribeToSymbols B w"
| "invoke B (UpdateSymbols newSymbols) w = updateSymbols B newSymbols w"
| "invoke B GetStatus w = w"
| "invoke B Cleanup w = cleanup w"

subsection \<open>The socket library\<close>

text \<open>
  The code of the socket library is not part of the repository. Its rule of reconnection
  is modelled here from the documentation of the library and from the notes on
  reconnection that the repository keeps, for the options that \<open>setupSocket\<close> passes. The
  library opens the connection as soon as the socket is created. An attempt that fails
  raises \<open>connect_error\<close>; the library then tries again, unless it has already made
  \<open>reconnectionAttempts\<close> attempts to reconnect since the connection was last open or
  the socket was created, in which case it gives up for good. The first attempt of a new
  socket is not an attempt to reconnect. An attempt that succeeds raises \<open>connect\<close> and
  sets the count of attempts to reconnect back to zero. Losing an open connection raises
  \<open>disconnect\<close> and starts reconnecting with a count of zero.
\<close>

datatype phase = Connecting | Open | Exhausted | Closed

text \<open>
  The state of the library for one socket: its phase, the attempts to reconnect made
  since the last reset, the connection attempts issued since the socket was created, and
  the two options.
\<close>

record upstream =
  phase :: phase
  backoff_attempts :: nat
  issued :: nat
  reconnection :: bool
  reconnectionAttempts :: nat

text \<open>The socket that \<open>setupSocket\<close> creates, its first attempt under way.\<close>

definition setupSocket :: upstream where
  "setupSocket =
     \<lparr>phase = Connecting, backoff_attempts = 0, issued = 1, reconnection = True,
      reconnectionAttempts = 5\<rparr>"

text \<open>The decision of the library to try again or to give up.\<close>

definition reconnect :: "upstream \<Rightarrow> upstream" where
  "reconnect u =
     (if backoff_attempts u \<ge> reconnectionAttempts u
      then u\<lparr>phase := Exhausted, backoff_attempts := 0\<rparr>
      else u\<lparr>phase := Connecting, backoff_attempts := backoff_attempts u + 1,
             issued := issued u + 1\<rparr>)"

text \<open>
  What the network does to the attempt under way or to the open connection. Each event
  first runs the handler that the manager registered for it. An event that the phase does
  not admit (a failure when no attempt is under way, a loss when nothing is open) does
  not occur.
\<close>

datatype feed_event = AttemptFails | AttemptSucceeds | ConnectionLost

fun feed_step :: "'n builtins \<Rightarrow> feed_event \<Rightarrow> upstream \<times> 'n world \<Rightarrow> upstream \<times> 'n world" where
  "feed_step B AttemptFails (u, w) =
     (if phase u = Connecting
      then (if reconnection u then reconnect u else u\<lparr>phase := Closed\<rparr>, on_connect_error w)
      else (u, w))"
| "feed_step B AttemptSucceeds (u, w) =
     (if phase u = Connecting
      then (u\<lparr>phase := Open, backoff_attempts := 0\<rparr>, on_connect B w)
      else (u, w))"
| "feed_step B ConnectionLost (u, w) =
     (if phase u = Open
      then (if reconnection u then reconnect (u\<lparr>backoff_attempts := 0\<rparr>) else u\<lparr>phase := Closed\<rparr>,
            on_disconnect w)
      else (u, w))"

definition run_feed ::
  "'n builtins \<Rightarrow> feed_event list \<Rightarrow> upstream \<times> 'n world \<Rightarrow> upstream \<times> 'n world" where
  "run_feed B evs s = fold (feed_step B) evs s"

section \<open>Notions of the specification\<close>

subsection \<open>The last-write-wins fold, as the specification words it\<close>

text \<open>
  The last update of the sequence that mentions field \<open>f\<close>, if any; the value of the
  field is then read from that update, and from the initial state otherwise.
\<close>

definition last_mention :: "string \<Rightarrow> 'n obj list \<Rightarrow> 'n obj option" where
  "last_mention f us = List.find (\<lambda>u. f \<in> set (map fst u)) (rev us)"

definition lww_fold :: "'n obj \<Rightarrow> 'n obj list \<Rightarrow> string \<Rightarrow> 'n jsval option" where
  "lww_fold init us f =
     (case last_mention f us of None \<Rightarrow> map_of init f | Some u \<Rightarrow> map_of u f)"

subsection \<open>Reading a trace and a hub\<close>

definition is_serialize :: "'n effect \<Rightarrow> bool" where
  "is_serialize e = (case e of Serialize _ \<Rightarrow> True | _ \<Rightarrow> False)"

definition is_emit :: "'n effect \<Rightarrow> bool" where
  "is_emit e = (case e of Emit _ _ _ \<Rightarrow> True | _ \<Rightarrow> False)"

text \<open>A subscriber is currently connected when the hub holds its socket and the socket
  is connected.\<close>

definition transport_open :: "'n hub \<Rightarrow> string \<Rightarrow> bool" where
  "transport_open h clientId =
     (case map_of (connectedClients h) clientId of None \<Rightarrow> False | Some socket \<Rightarrow> connected socket)"

text \<open>An event by which client \<open>c\<close> subscribes.\<close>

definition subscribes :: "string \<Rightarrow> 'n hub_event \<Rightarrow> bool" where
  "subscribes c ev = (case ev of Subscribe c' eventType data \<Rightarrow> c' = c | _ \<Rightarrow> False)"

text \<open>The two invariants of the hub that the proofs carry along a run.\<close>

definition mutual_inverse :: "'n hub \<Rightarrow> bool" where
  "mutual_inverse h =
     (\<forall>c s. (c \<in> set (members (symbolSubscribers h) s)) = (s \<in> set (members (clientSubscriptions h) c)))"

definition no_empty_entry :: "'n hub \<Rightarrow> bool" where
  "no_empty_entry h = (\<forall>s. map_of (symbolSubscribers h) s \<noteq> Some [])"

subsection \<open>The events on which the cache update throws\<close>

text \<open>
  \<open>updateCache\<close> calls \<open>toFixed\<close> on the average price of a \<open>match-price\<close> event when it
  is truthy, and \<open>includes\<close> on the symbol of an \<open>index\<close> event: the first exists on
  numbers only, the second on strings and arrays only.
\<close>

definition updateCache_throws :: "'n builtins \<Rightarrow> 'n obj \<Rightarrow> string \<Rightarrow> bool" where
  "updateCache_throws B message type =
     (if type = ''match-price''
      then truthy B (get_prop message ''avgMatchPrice'')
             \<and> \<not> is_number (get_prop message ''avgMatchPrice'')
      else type = ''index''
             \<and> (case get_prop message ''symbol'' of
                  JStr str \<Rightarrow> False | JArr xs \<Rightarrow> False | _ \<Rightarrow> True))"

subsection \<open>Values for the examples\<close>

text \<open>
  An instance of the builtins over the integers, for evaluating the model on examples;
  the theorems hold for every instance.
\<close>

definition int_builtins :: "int builtins" where
  "int_builtins =
     \<lparr>json_parse = (\<lambda>str. Inl SyntaxError),
      json_stringify =
        (\<lambda>v. case v of
               JObj ob \<Rightarrow>
                 (case get_prop ob ''symbol'' of JStr s \<Rightarrow> ''{symbol:'' @ s @ ''}'' | _ \<Rightarrow> ''{}'')
             | _ \<Rightarrow> ''null''),
      num_truthy = (\<lambda>n. n \<noteq> 0),
      num_sub = (\<lambda>a b. case (a, b) of (JNum x, JNum y) \<Rightarrow> JNum (x - y) | _ \<Rightarrow> JUndefined),
      num_div = (\<lambda>a b. case (a, b) of (JNum x, JNum y) \<Rightarrow> JNum (x div y) | _ \<Rightarrow> JUndefined),
      num_mul = (\<lambda>a b. case (a, b) of (JNum x, JNum y) \<Rightarrow> JNum (x * y) | _ \<Rightarrow> JUndefined),
      num_toFixed0 = (\<lambda>n. ''0''),
      num_of_string = (\<lambda>str. 0),
      num_zero = 0,
      num_hundred = 100\<rparr>"

definition open_socket :: sock where
  "open_socket = \<lparr>connected = True, emit_throws = False\<rparr>"

definition closed_socket :: sock where
  "closed_socket = \<lparr>connected = False, emit_throws = False\<rparr>"

definition symbols_payload :: "string list \<Rightarrow> int jsval" where
  "symbols_payload names = JObj [(''symbols'', JArr (map JStr names))]"

definition example_decode :: "int decoder" where
  "example_decode data =
     (if data = ''trade'' then
        Inr [(''symbol'', JStr ''VIC''), (''matchPrice'', JNum 105), (''referencePrice'', JNum 100),
             (''avgMatchPrice'', JNum 104)]
      else if data = ''vnindex'' then
        Inr [(''symbol'', JStr ''VNINDEX''), (''price'', JNum 1250)]
      else if data = ''nosymbol'' then
        Inr [(''symbol'', JStr []), (''matchPrice'', JNum 105)]
      else if data = ''textavg'' then
        Inr [(''symbol'', JStr ''VIC''), (''matchPrice'', JNum 105), (''referencePrice'', JNum 100),
             (''avgMatchPrice'', JStr ''104'')]
      else Inl DecodeError)"

definition example_messageTypes :: "(string \<times> int decoder) list" where
  "example_messageTypes =
     [(''index'', example_decode), (''match-price'', example_decode), (''bid-ask'', example_decode)]"

text \<open>
  A run of the hub with three clients, the second of which has a socket that is no longer
  connected, and a world around the hub it reaches.
\<close>

definition example_events :: "int hub_event list" where
  "example_events =
     [Connection ''c1'' open_socket,
      Connection ''c2'' closed_socket,
      Connection ''c3'' open_socket,
      Subscribe ''c1'' ''match-price'' (symbols_payload [''VIC'', ''VHM'']),
      Subscribe ''c2'' ''match-price'' (symbols_payload [''VIC'']),
      Subscribe ''c3'' ''bid-ask'' (symbols_payload [''VIC'', ''VNINDEX''])]"

definition example_world :: "int world" where
  "example_world =
     \<lparr>cacheManager = newCacheManager 0,
      broadcastService = run_hub int_builtins example_events,
      realtimeManager = newRealtimeManager\<lparr>has_socket := True, isConnected := True\<rparr>,
      effects = []\<rparr>"

section \<open>Properties of the cache\<close>

lemma map_of_spread:
  "distinct (map fst b) \<Longrightarrow> map_of (spread a b) = map_of a ++ map_of b"
proof (induction b arbitrary: a)
  case Nil
  then show ?case by (simp add: spread_def)
next
  case (Cons p b)
  obtain k v where p: "p = (k, v)" by (cases p)
  from Cons.prems p have notin: "k \<notin> fst ` set b" and d: "distinct (map fst b)"
    by auto
  have "map_of (spread a (p # b)) = map_of (spread (AList.update k v a) b)"
    by (simp add: spread_def p)
  also have "\<dots> = map_of (AList.update k v a) ++ map_of b"
    using Cons.IH [OF d] .
  also have "\<dots> = map_of a ++ map_of (p # b)"
  proof
    fix x
    show "(map_of (AList.update k v a) ++ map_of b) x = (map_of a ++ map_of (p # b)) x"
    proof (cases "x = k")
      case True
      from notin have "map_of b k = None" by (simp add: map_of_eq_None_iff)
      with True show ?thesis by (simp add: p map_add_def update_conv')
    next
      case False
      then show ?thesis by (cases "map_of b x") (simp_all add: p map_add_def update_conv')
    qed
  qed
  finally show ?case .
qed

lemma existingData_setStockData:
  "existingData (setStockData symbol data c) symbol = data"
  by (simp add: existingData_def setStockData_def Let_def update_conv')

lemma existingData_updateStockData:
  "existingData (updateStockData symbol u c) symbol = spread (existingData c symbol) u"
  by (simp add: updateStockData_def existingData_setStockData)

lemma applyUpdates_snoc:
  "applyUpdates symbol (us @ [u]) c = updateStockData symbol u (applyUpdates symbol us c)"
  by (simp add: applyUpdates_def)

lemma lww_fold_snoc:
  "lww_fold init (us @ [u]) f =
     (if f \<in> set (map fst u) then map_of u f else lww_fold init us f)"
  by (simp add: lww_fold_def last_mention_def)

lemma map_of_None_keys: "f \<notin> set (map fst u) \<Longrightarrow> map_of u f = None"
  by (simp add: map_of_eq_None_iff)

lemma map_of_Some_keys: "f \<in> set (map fst u) \<Longrightarrow> \<exists>v. map_of u f = Some v"
  by (cases "map_of u f") (auto simp: map_of_eq_None_iff)

text \<open>
  Claim C1. Whatever the cache holds and whatever the symbol, after a finite sequence of
  partial updates applied with \<open>updateStockData\<close> the record of the symbol is the
  field-wise last-write-wins fold of the sequence over the record it had before: each
  field has the value given by the last update that mentions it, and a field that no
  update mentions has its initial value, or is absent when it was never set. Each update
  is a JavaScript object, so it names each of its fields once.
\<close>

theorem updateStockData_last_write_wins:
  assumes "\<forall>u \<in> set us. distinct (map fst u)"
  shows "map_of (existingData (applyUpdates symbol us c) symbol) f
           = lww_fold (existingData c symbol) us f"
  using assms
proof (induction us rule: rev_induct)
  case Nil
  show ?case by (simp add: applyUpdates_def lww_fold_def last_mention_def)
next
  case (snoc u us)
  from snoc.prems have du: "distinct (map fst u)" and dus: "\<forall>u \<in> set us. distinct (map fst u)"
    by auto
  have ih: "map_of (existingData (applyUpdates symbol us c) symbol) f
              = lww_fold (existingData c symbol) us f"
    using snoc.IH [OF dus] .
  show ?case
  proof (cases "f \<in> set (map fst u)")
    case True
    then obtain v where "map_of u f = Some v" using map_of_Some_keys by fastforce
    then show ?thesis
      using True
      by (simp add: applyUpdates_snoc existingData_updateStockData map_of_spread [OF du]
            lww_fold_snoc map_add_def)
  next
    case False
    then have "map_of u f = None" by (rule map_of_None_keys)
    then show ?thesis
      using False ih
      by (simp add: applyUpdates_snoc existingData_updateStockData map_of_spread [OF du]
            lww_fold_snoc map_add_def)
  qed
qed

theorem updateStockData_last_write_wins_witness:
  "distinct (map fst [(''ref'', JNum (100::int)), (''cao'', JNum 101)])
   \<and> distinct (map fst [(''cao'', JNum (105::int))])
   \<and> map_of (existingData
         (applyUpdates (JStr ''VIC'')
            [ [(''ref'', JNum (100::int)), (''cao'', JNum 101)], [(''cao'', JNum 105)]]
            (setStockData (JStr ''VIC'') [(''tran'', JNum 110)] (newCacheManager 0)))
         (JStr ''VIC'')) ''cao'' = Some (JNum 105)
   \<and> map_of (existingData
         (applyUpdates (JStr ''VIC'')
            [ [(''ref'', JNum (100::int)), (''cao'', JNum 101)], [(''cao'', JNum 105)]]
            (setStockData (JStr ''VIC'') [(''tran'', JNum 110)] (newCacheManager 0)))
         (JStr ''VIC'')) ''tran'' = Some (JNum 110)"
proof -
  let ?us = "[ [(''ref'', JNum (100::int)), (''cao'', JNum 101)], [(''cao'', JNum 105)]]"
  let ?c = "setStockData (JStr ''VIC'') [(''tran'', JNum (110::int))] (newCacheManager 0)"
  have h: "\<forall>u \<in> set ?us. distinct (map fst u)" by simp
  have init: "existingData ?c (JStr ''VIC'') = [(''tran'', JNum 110)]"
    by (rule existingData_setStockData)
  have "lww_fold (existingData ?c (JStr ''VIC'')) ?us ''cao'' = Some (JNum 105)"
    by (simp add: init lww_fold_def last_mention_def)
  moreover have "lww_fold (existingData ?c (JStr ''VIC'')) ?us ''tran'' = Some (JNum 110)"
    by (simp add: init lww_fold_def last_mention_def)
  ultimately show ?thesis
    using h updateStockData_last_write_wins [OF h, of "JStr ''VIC''" ?c]
    by simp
qed

lemma setMultipleStockData_Cons:
  "setMultipleStockData ((symbol, data) # entries) c =
     setMultipleStockData entries (setStockData (JStr symbol) data c)"
  by (simp add: setMultipleStockData_def)

lemma stockData_setStockData:
  "map_of (stockData (setStockData symbol data c)) = (map_of (stockData c))(symbol \<mapsto> data)"
  by (simp add: setStockData_def Let_def update_conv')

lemma setMultipleStockData_other:
  "s \<notin> set (map fst entries) \<Longrightarrow>
     map_of (stockData (setMultipleStockData entries c)) (JStr s) = map_of (stockData c) (JStr s)"
proof (induction entries arbitrary: c)
  case Nil
  show ?case by (simp add: setMultipleStockData_def)
next
  case (Cons p entries)
  obtain k v where p: "p = (k, v)" by (cases p)
  from Cons.prems p have "k \<noteq> s" and "s \<notin> set (map fst entries)" by auto
  then show ?case
    using Cons.IH [of "setStockData (JStr k) v c"]
    by (simp add: p setMultipleStockData_Cons stockData_setStockData)
qed

lemma setMultipleStockData_named:
  "distinct (map fst entries) \<Longrightarrow> (s, d) \<in> set entries \<Longrightarrow>
     map_of (stockData (setMultipleStockData entries c)) (JStr s) = Some d"
proof (induction entries arbitrary: c)
  case Nil
  then show ?case by simp
next
  case (Cons p entries)
  obtain k v where p: "p = (k, v)" by (cases p)
  from Cons.prems p have fresh: "k \<notin> set (map fst entries)" and d: "distinct (map fst entries)"
    by auto
  show ?case
  proof (cases "(s, d) = p")
    case True
    with p have "k = s" "v = d" by auto
    with fresh show ?thesis
      by (simp add: p setMultipleStockData_Cons setMultipleStockData_other stockData_setStockData)
  next
    case False
    with Cons.prems have "(s, d) \<in> set entries" by auto
    from Cons.IH [OF d this] show ?thesis
      by (simp add: p setMultipleStockData_Cons)
  qed
qed

text \<open>
  Claim C2. For every symbol named in a bulk-load payload, \<open>setMultipleStockData\<close> (which
  stores each entry with \<open>setStockData\<close>) leaves exactly the new record under that symbol:
  nothing of the old record is merged in, so a field that the new record does not have is
  absent afterwards, whatever the old record held. The entries are those of a JavaScript
  object, so each symbol occurs once among them.
\<close>

theorem setMultipleStockData_replaces:
  assumes "distinct (map fst entries)" and "(s, d) \<in> set entries"
  shows "map_of (stockData (setMultipleStockData entries c)) (JStr s) = Some d
         \<and> (f \<notin> set (map fst d) \<longrightarrow>
              map_of (existingData (setMultipleStockData entries c) (JStr s)) f = None)"
  using setMultipleStockData_named [OF assms]
  by (simp add: existingData_def map_of_None_keys)

theorem setMultipleStockData_replaces_witness:
  "distinct (map fst [(''VIC'', [(''ref'', JNum (100::int)), (''ceiling'', JNum 110)])])
   \<and> (''VIC'', [(''ref'', JNum (100::int)), (''ceiling'', JNum 110)])
         \<in> set [(''VIC'', [(''ref'', JNum (100::int)), (''ceiling'', JNum 110)])]
   \<and> ''khopLenhGia'' \<notin> set (map fst [(''ref'', JNum (100::int)), (''ceiling'', JNum 110)])
   \<and> map_of (existingData
         (setStockData (JStr ''VIC'') [(''ref'', JNum 90), (''khopLenhGia'', JNum 95)]
            (newCacheManager 0)) (JStr ''VIC'')) ''khopLenhGia'' = Some (JNum (95::int))
   \<and> map_of (existingData
         (setMultipleStockData [(''VIC'', [(''ref'', JNum (100::int)), (''ceiling'', JNum 110)])]
            (setStockData (JStr ''VIC'') [(''ref'', JNum 90), (''khopLenhGia'', JNum 95)]
               (newCacheManager 0))) (JStr ''VIC'')) ''khopLenhGia'' = None"
proof -
  let ?d = "[(''ref'', JNum (100::int)), (''ceiling'', JNum 110)]"
  let ?es = "[(''VIC'', ?d)]"
  let ?c = "setStockData (JStr ''VIC'') [(''ref'', JNum (90::int)), (''khopLenhGia'', JNum 95)]
              (newCacheManager 0)"
  have h1: "distinct (map fst ?es)" by simp
  have h2: "(''VIC'', ?d) \<in> set ?es" by simp
  have h3: "''khopLenhGia'' \<notin> set (map fst ?d)" by simp
  have old: "map_of (existingData ?c (JStr ''VIC'')) ''khopLenhGia'' = Some (JNum 95)"
    by (simp add: existingData_setStockData)
  from setMultipleStockData_replaces [OF h1 h2, where f = "''khopLenhGia''" and c = ?c] h3
  have "map_of (existingData (setMultipleStockData ?es ?c) (JStr ''VIC'')) ''khopLenhGia'' = None"
    by blast
  with h1 h2 h3 old show ?thesis by blast
qed

section \<open>Evaluating the examples\<close>

lemmas hub_eval =
  run_hub_def handleSubscription_def handleUnsubscription_def handleDisconnection_def
  onConnection_def parse_symbols_def member_def own_member_def or_else_def truthy_def
  get_prop_def add_symbol_def add_subscriber_def remove_symbol_def remove_subscriber_def
  set_add_def set_delete_def members_def newBroadcastService_def symbols_payload_def
  int_builtins_def open_socket_def closed_socket_def Let_def

lemmas broadcast_eval =
  broadcastUpdate_def send_update_def convertToBinaryData_def

lemma example_hub:
  "run_hub int_builtins example_events
   = \<lparr>clientSubscriptions =
        [(''c1'', [JStr ''VIC'', JStr ''VHM'']), (''c2'', [JStr ''VIC'']),
         (''c3'', [JStr ''VIC'', JStr ''VNINDEX''])],
      symbolSubscribers =
        [(JStr ''VIC'', [''c1'', ''c2'', ''c3'']), (JStr ''VHM'', [''c1'']),
         (JStr ''VNINDEX'', [''c3''])],
      connectedClients = [(''c1'', open_socket), (''c2'', closed_socket), (''c3'', open_socket)]\<rparr>"
  by (simp add: example_events_def hub_eval)

lemmas cache_eval =
  updateCache_def average_price_def updateStockData_def setStockData_def existingData_def
  spread_def newCacheManager_def js_includes_def console_def truthy_def

lemma example_decode_trade:
  "example_decode ''trade''
     = Inr [(''symbol'', JStr ''VIC''), (''matchPrice'', JNum 105), (''referencePrice'', JNum 100),
            (''avgMatchPrice'', JNum 104)]"
  by (simp add: example_decode_def)

section \<open>Properties of the hub\<close>

subsection \<open>Lookups after each operation\<close>

lemma members_update:
  "members (AList.update k v m) k' = (if k' = k then v else members m k')"
  by (simp add: members_def update_conv')

lemma members_delete:
  "members (AList.delete k m) k' = (if k' = k then [] else members m k')"
  by (simp add: members_def delete_conv')

lemma set_set_add: "set (set_add x xs) = insert x (set xs)"
  by (auto simp: set_add_def)

lemma set_set_delete: "set (set_delete x xs) = set xs - {x}"
  by (auto simp: set_delete_def)

lemma members_remove_subscriber:
  "set (members (remove_subscriber c s m) s') =
     (if s' = s then set (members m s) - {c} else set (members m s'))"
proof (cases "map_of m s")
  case None
  then show ?thesis by (simp add: remove_subscriber_def members_def)
next
  case (Some xs)
  then have m: "members m s = xs" by (simp add: members_def)
  show ?thesis
  proof (cases "set_delete c xs = []")
    case True
    then have "set xs - {c} = {}" using set_set_delete [of c xs] by simp
    with True Some m show ?thesis
      by (simp add: remove_subscriber_def members_delete)
  next
    case False
    with Some m show ?thesis
      by (simp add: remove_subscriber_def members_update set_set_delete)
  qed
qed

lemma fold_remove_subscriber:
  "set (members (fold (remove_subscriber c) S m) s) =
     (if s \<in> set S then set (members m s) - {c} else set (members m s))"
  by (induction S arbitrary: m) (auto simp: members_remove_subscriber)

lemma subs_fold_add_symbol:
  "set (members (symbolSubscribers (fold (add_symbol c) S h)) s) =
     (if s \<in> set S then insert c (set (members (symbolSubscribers h) s))
      else set (members (symbolSubscribers h) s))"
  by (induction S arbitrary: h) (auto simp: add_symbol_def add_subscriber_def members_update set_set_add)

lemma clis_fold_add_symbol:
  "set (members (clientSubscriptions (fold (add_symbol c) S h)) c') =
     (if c' = c then set (members (clientSubscriptions h) c) \<union> set S
      else set (members (clientSubscriptions h) c'))"
  by (induction S arbitrary: h) (auto simp: add_symbol_def members_update set_set_add)

lemma subs_fold_remove_symbol:
  "symbolSubscribers (fold (remove_symbol c) S h) = fold (remove_subscriber c) S (symbolSubscribers h)"
  by (induction S arbitrary: h) (auto simp: remove_symbol_def)

lemma clis_fold_remove_symbol:
  "set (members (clientSubscriptions (fold (remove_symbol c) S h)) c') =
     (if c' = c then set (members (clientSubscriptions h) c) - set S
      else set (members (clientSubscriptions h) c'))"
  by (induction S arbitrary: h) (auto simp: remove_symbol_def members_update set_set_delete)

subsection \<open>The indexes are mutual inverses\<close>

lemma mutual_inverse_new: "mutual_inverse newBroadcastService"
  by (simp add: mutual_inverse_def newBroadcastService_def members_def)

lemma mutual_inverse_onConnection: "mutual_inverse h \<Longrightarrow> mutual_inverse (onConnection c k h)"
  by (simp add: mutual_inverse_def onConnection_def)

lemma mutual_inverse_handleSubscription:
  assumes "mutual_inverse h" shows "mutual_inverse (handleSubscription B c t d h)"
proof -
  have init: "mutual_inverse (if map_of (clientSubscriptions h) c = None
             then h\<lparr>clientSubscriptions := AList.update c [] (clientSubscriptions h)\<rparr>
             else h)" (is "mutual_inverse ?h1")
    using assms by (auto simp: mutual_inverse_def members_update) (simp_all add: members_def)
  have "mutual_inverse (fold (add_symbol c) S ?h1)" for S
    using init unfolding mutual_inverse_def
    by (auto simp: subs_fold_add_symbol clis_fold_add_symbol)
  then show ?thesis using assms
    by (auto simp: handleSubscription_def split: sum.splits option.splits)
qed

lemma mutual_inverse_handleUnsubscription:
  assumes "mutual_inverse h" shows "mutual_inverse (handleUnsubscription B c t d h)"
proof -
  have "mutual_inverse (fold (remove_symbol c) S h)" for S
    using assms unfolding mutual_inverse_def
    by (auto simp: subs_fold_remove_symbol fold_remove_subscriber clis_fold_remove_symbol)
  then show ?thesis using assms
    by (auto simp: handleUnsubscription_def split: sum.splits option.splits)
qed

lemma mutual_inverse_handleDisconnection:
  assumes "mutual_inverse h" shows "mutual_inverse (handleDisconnection c h)"
proof (cases "map_of (clientSubscriptions h) c")
  case None
  then show ?thesis using assms
    by (simp add: handleDisconnection_def mutual_inverse_def)
next
  case (Some S)
  then have S: "members (clientSubscriptions h) c = S" by (simp add: members_def)
  show ?thesis using assms Some S
    unfolding mutual_inverse_def
    by (auto simp: handleDisconnection_def Let_def fold_remove_subscriber members_delete)
qed

lemma mutual_inverse_step: "mutual_inverse h \<Longrightarrow> mutual_inverse (hub_step B ev h)"
  by (cases ev)
     (simp_all add: mutual_inverse_onConnection mutual_inverse_handleSubscription
        mutual_inverse_handleUnsubscription mutual_inverse_handleDisconnection)

lemma mutual_inverse_fold: "mutual_inverse h \<Longrightarrow> mutual_inverse (fold (hub_step B) evs h)"
  by (induction evs arbitrary: h) (simp_all add: mutual_inverse_step)

text \<open>
  Claim C3. After every sequence of hub events from the hub that the constructor builds
  (connections, subscriptions, unsubscriptions and disconnections, whatever their payloads),
  the two subscription indexes are mutual inverses: a client \<open>c\<close> is in the subscriber
  set of a symbol \<open>s\<close> exactly when \<open>s\<close> is in the set of symbols of \<open>c\<close>.
\<close>

theorem hub_indexes_mutual_inverse:
  "(c \<in> set (members (symbolSubscribers (run_hub B evs)) s))
     = (s \<in> set (members (clientSubscriptions (run_hub B evs)) c))"
  using mutual_inverse_fold [OF mutual_inverse_new, of B evs]
  by (simp add: run_hub_def mutual_inverse_def)

theorem hub_indexes_mutual_inverse_witness:
  "''c3'' \<in> set (members (symbolSubscribers (run_hub int_builtins example_events)) (JStr ''VNINDEX''))
   \<and> JStr ''VNINDEX'' \<in> set (members (clientSubscriptions (run_hub int_builtins example_events)) ''c3'')
   \<and> ''c2'' \<notin> set (members (symbolSubscribers (run_hub int_builtins example_events)) (JStr ''VHM''))
   \<and> JStr ''VHM'' \<notin> set (members (clientSubscriptions (run_hub int_builtins example_events)) ''c2'')"
proof -
  have a: "''c3'' \<in> set (members (symbolSubscribers (run_hub int_builtins example_events)) (JStr ''VNINDEX''))"
    by (simp add: example_hub members_def)
  have b: "''c2'' \<notin> set (members (symbolSubscribers (run_hub int_builtins example_events)) (JStr ''VHM''))"
    by (simp add: example_hub members_def)
  from a b
    hub_indexes_mutual_inverse [of "''c3''" int_builtins example_events "JStr ''VNINDEX''"]
    hub_indexes_mutual_inverse [of "''c2''" int_builtins example_events "JStr ''VHM''"]
  show ?thesis by blast
qed

subsection \<open>Subscription followed by unsubscription\<close>

lemma update_update_swap:
  "t \<in> fst ` set m \<Longrightarrow> t \<noteq> s \<Longrightarrow>
     AList.update t v (AList.update s w m) = AList.update s w (AList.update t v m)"
  by (induction m) auto

lemma map_of_Some_in_keys: "map_of m k = Some v \<Longrightarrow> k \<in> fst ` set m"
  by (metis map_of_eq_None_iff option.distinct(1))

lemma remove_add_commute:
  assumes "t \<noteq> s"
  shows "remove_subscriber c t (add_subscriber c s m) = add_subscriber c s (remove_subscriber c t m)"
proof (cases "map_of m t")
  case None
  then show ?thesis using assms
    by (simp add: remove_subscriber_def add_subscriber_def update_conv')
next
  case (Some xs)
  have mem: "members (AList.delete t m) s = members m s" "members (AList.update t v m) s = members m s" for v
    using assms by (simp_all add: members_delete members_update)
  show ?thesis
  proof (cases "set_delete c xs = []")
    case True
    with Some assms show ?thesis
      by (simp add: remove_subscriber_def add_subscriber_def update_conv' mem delete_update)
  next
    case False
    from Some have "t \<in> fst ` set m" by (rule map_of_Some_in_keys)
    with False Some assms show ?thesis
      by (simp add: remove_subscriber_def add_subscriber_def update_conv' mem update_update_swap)
  qed
qed

lemma fold_remove_add_commute:
  "s \<notin> set S \<Longrightarrow>
     fold (remove_subscriber c) S (add_subscriber c s m) = add_subscriber c s (fold (remove_subscriber c) S m)"
proof (induction S arbitrary: m)
  case Nil
  show ?case by simp
next
  case (Cons t S)
  then have "t \<noteq> s" "s \<notin> set S" by auto
  then show ?case using Cons.IH [of "remove_subscriber c t m"]
    by (simp add: remove_add_commute)
qed

lemma remove_add_same:
  assumes "c \<notin> set (members m s)" and "map_of m s \<noteq> Some []"
  shows "remove_subscriber c s (add_subscriber c s m) = m"
proof (cases "map_of m s")
  case None
  then have "s \<notin> fst ` set m" by (simp add: map_of_eq_None_iff)
  with None show ?thesis
    by (simp add: remove_subscriber_def add_subscriber_def update_conv' members_def
          set_add_def set_delete_def delete_update_same)
next
  case (Some xs)
  with assms have "c \<notin> set xs" "xs \<noteq> []" by (simp_all add: members_def)
  with Some show ?thesis
    by (simp add: remove_subscriber_def add_subscriber_def update_conv' members_def
          set_add_def set_delete_def update_triv)
qed

lemma remove_absent:
  assumes "c \<notin> set (members m s)" and "map_of m s \<noteq> Some []"
  shows "remove_subscriber c s m = m"
proof (cases "map_of m s")
  case None
  then show ?thesis by (simp add: remove_subscriber_def)
next
  case (Some xs)
  with assms have "c \<notin> set xs" "xs \<noteq> []" by (simp_all add: members_def)
  with Some show ?thesis
    by (simp add: remove_subscriber_def set_delete_def update_triv)
qed

lemma add_present:
  assumes "c \<in> set (members m s)"
  shows "add_subscriber c s m = m"
proof -
  from assms obtain xs where "map_of m s = Some xs" "c \<in> set xs"
    by (cases "map_of m s") (auto simp: members_def)
  then show ?thesis
    by (simp add: add_subscriber_def members_def set_add_def update_triv)
qed

lemma members_fold_add_subscriber:
  "set (members (fold (add_subscriber c) S m) s) =
     (if s \<in> set S then insert c (set (members m s)) else set (members m s))"
  by (induction S arbitrary: m) (auto simp: add_subscriber_def members_update set_set_add)

lemma fold_snoc: "fold f (xs @ [x]) a = f x (fold f xs a)"
  by simp

lemma subscribers_roundtrip:
  assumes "\<forall>s \<in> set S. c \<notin> set (members m s)"
      and "\<forall>s \<in> set S. map_of m s \<noteq> Some []"
  shows "fold (remove_subscriber c) S (fold (add_subscriber c) S m) = m"
  using assms
proof (induction S rule: rev_induct)
  case Nil
  show ?case by simp
next
  case (snoc s S)
  from snoc.prems have cs: "c \<notin> set (members m s)" and ne: "map_of m s \<noteq> Some []"
    and pre: "\<forall>s \<in> set S. c \<notin> set (members m s)" "\<forall>s \<in> set S. map_of m s \<noteq> Some []"
    by auto
  have ih: "fold (remove_subscriber c) S (fold (add_subscriber c) S m) = m"
    using snoc.IH [OF pre] .
  show ?case
  proof (cases "s \<in> set S")
    case True
    then have "c \<in> set (members (fold (add_subscriber c) S m) s)"
      by (simp add: members_fold_add_subscriber)
    then have "add_subscriber c s (fold (add_subscriber c) S m) = fold (add_subscriber c) S m"
      by (rule add_present)
    then show ?thesis
      using ih remove_absent [OF cs ne] by (simp del: fold_simps add: fold_snoc)
  next
    case False
    have "fold (remove_subscriber c) (S @ [s]) (fold (add_subscriber c) (S @ [s]) m)
            = remove_subscriber c s (fold (remove_subscriber c) S
                (add_subscriber c s (fold (add_subscriber c) S m)))"
      by simp
    also have "\<dots> = remove_subscriber c s (add_subscriber c s
                (fold (remove_subscriber c) S (fold (add_subscriber c) S m)))"
      by (simp only: fold_remove_add_commute [OF False])
    also have "\<dots> = m"
      using ih remove_add_same [OF cs ne] by simp
    finally show ?thesis .
  qed
qed

lemma subs_fold_add_symbol_eq:
  "symbolSubscribers (fold (add_symbol c) S h) = fold (add_subscriber c) S (symbolSubscribers h)"
  by (induction S arbitrary: h) (auto simp: add_symbol_def)

lemma clis_fold_add_symbol_eq:
  "map_of (clientSubscriptions h) c = Some X \<Longrightarrow>
     clientSubscriptions (fold (add_symbol c) S h)
       = AList.update c (fold set_add S X) (clientSubscriptions h)"
proof (induction S arbitrary: h X)
  case Nil
  then show ?case by (simp add: update_triv)
next
  case (Cons s S)
  let ?h = "add_symbol c s h"
  have "map_of (clientSubscriptions ?h) c = Some (set_add s X)"
    using Cons.prems by (simp add: add_symbol_def update_conv' members_def)
  from Cons.IH [OF this] show ?case
    using Cons.prems by (simp add: add_symbol_def members_def)
qed

lemma clis_fold_remove_symbol_eq:
  "map_of (clientSubscriptions h) c = Some X \<Longrightarrow>
     clientSubscriptions (fold (remove_symbol c) S h)
       = AList.update c (fold set_delete S X) (clientSubscriptions h)"
proof (induction S arbitrary: h X)
  case Nil
  then show ?case by (simp add: update_triv)
next
  case (Cons s S)
  let ?h = "remove_symbol c s h"
  have "map_of (clientSubscriptions ?h) c = Some (set_delete s X)"
    using Cons.prems by (simp add: remove_symbol_def update_conv' members_def)
  from Cons.IH [OF this] show ?case
    using Cons.prems by (simp add: remove_symbol_def members_def)
qed

lemma fold_set_delete_filter: "fold set_delete S xs = filter (\<lambda>x. x \<notin> set S) xs"
proof (induction S arbitrary: xs)
  case Nil
  show ?case by simp
next
  case (Cons s S)
  have "fold set_delete (s # S) xs = filter (\<lambda>x. x \<notin> set S) (set_delete s xs)"
    by (simp add: Cons.IH)
  also have "\<dots> = filter (\<lambda>x. x \<notin> set (s # S)) xs"
    unfolding set_delete_def by (induction xs) auto
  finally show ?case .
qed

lemma filter_fold_set_add:
  "set S' \<subseteq> set S \<Longrightarrow>
     filter (\<lambda>x. x \<notin> set S) (fold set_add S' xs) = filter (\<lambda>x. x \<notin> set S) xs"
  by (induction S' arbitrary: xs) (auto simp: set_add_def)

lemma interests_roundtrip:
  assumes "\<forall>s \<in> set S. s \<notin> set X"
  shows "fold set_delete S (fold set_add S X) = X"
proof -
  have "filter (\<lambda>x. x \<notin> set S) X = X" using assms by (auto simp: filter_id_conv)
  then show ?thesis
    by (simp add: fold_set_delete_filter filter_fold_set_add)
qed

lemma no_empty_new: "no_empty_entry newBroadcastService"
  by (simp add: no_empty_entry_def newBroadcastService_def)

lemma no_empty_add_subscriber:
  "\<forall>s. map_of m s \<noteq> Some [] \<Longrightarrow> map_of (add_subscriber c t m) s \<noteq> Some []"
  by (auto simp: add_subscriber_def update_conv' set_add_def)

lemma no_empty_remove_subscriber:
  "\<forall>s. map_of m s \<noteq> Some [] \<Longrightarrow> map_of (remove_subscriber c t m) s \<noteq> Some []"
  by (cases "map_of m t") (simp_all add: remove_subscriber_def update_conv' delete_conv')

lemma no_empty_fold_add:
  "\<forall>s. map_of m s \<noteq> Some [] \<Longrightarrow> \<forall>s. map_of (fold (add_subscriber c) S m) s \<noteq> Some []"
  by (induction S arbitrary: m) (simp_all add: no_empty_add_subscriber)

lemma no_empty_fold_remove:
  "\<forall>s. map_of m s \<noteq> Some [] \<Longrightarrow> \<forall>s. map_of (fold (remove_subscriber c) S m) s \<noteq> Some []"
  by (induction S arbitrary: m) (simp_all add: no_empty_remove_subscriber)

lemma no_empty_step: "no_empty_entry h \<Longrightarrow> no_empty_entry (hub_step B ev h)"
proof (cases ev)
  case (Connection c k)
  assume "no_empty_entry h"
  with Connection show ?thesis by (simp add: no_empty_entry_def onConnection_def)
next
  case (Subscribe c t d)
  assume "no_empty_entry h"
  with Subscribe show ?thesis
    by (auto simp: no_empty_entry_def handleSubscription_def subs_fold_add_symbol_eq
          no_empty_fold_add split: sum.splits option.splits)
next
  case (Unsubscribe c t d)
  assume "no_empty_entry h"
  with Unsubscribe show ?thesis
    by (auto simp: no_empty_entry_def handleUnsubscription_def subs_fold_remove_symbol
          no_empty_fold_remove split: sum.splits option.splits)
next
  case (Disconnect c)
  assume "no_empty_entry h"
  with Disconnect show ?thesis
    by (auto simp: no_empty_entry_def handleDisconnection_def Let_def
          no_empty_fold_remove split: option.splits)
qed

lemma no_empty_fold: "no_empty_entry h \<Longrightarrow> no_empty_entry (fold (hub_step B) evs h)"
  by (induction evs arbitrary: h) (simp_all add: no_empty_step)

lemma no_empty_run: "no_empty_entry (run_hub B evs)"
  by (simp add: run_hub_def no_empty_fold no_empty_new)

lemma mutual_inverse_run: "mutual_inverse (run_hub B evs)"
  by (simp add: run_hub_def mutual_inverse_fold mutual_inverse_new)

lemma update_fresh: "k \<notin> fst ` set m \<Longrightarrow> AList.update k v m = m @ [(k, v)]"
  by (induction m) auto

lemma roundtrip_general:
  assumes parse: "parse_symbols B d = Inr (Some S)"
      and fresh: "\<forall>s \<in> set S. s \<notin> set (members (clientSubscriptions h) c)"
      and inv: "mutual_inverse h" and ne: "no_empty_entry h"
  shows "symbolSubscribers (handleUnsubscription B c t' d (handleSubscription B c t d h))
           = symbolSubscribers h"
    and "clientSubscriptions (handleUnsubscription B c t' d (handleSubscription B c t d h))
           = (if map_of (clientSubscriptions h) c = None
              then clientSubscriptions h @ [(c, [])] else clientSubscriptions h)"
    and "connectedClients (handleUnsubscription B c t' d (handleSubscription B c t d h))
           = connectedClients h"
proof -
  let ?X = "members (clientSubscriptions h) c"
  let ?h1 = "if map_of (clientSubscriptions h) c = None
             then h\<lparr>clientSubscriptions := AList.update c [] (clientSubscriptions h)\<rparr>
             else h"
  let ?cs1 = "if map_of (clientSubscriptions h) c = None
              then clientSubscriptions h @ [(c, [])] else clientSubscriptions h"
  let ?h' = "fold (add_symbol c) S ?h1"
  have sub: "handleSubscription B c t d h = ?h'"
    by (simp add: handleSubscription_def parse)
  have cs1: "clientSubscriptions ?h1 = ?cs1"
    by (simp add: update_fresh map_of_eq_None_iff)
  have ss1: "symbolSubscribers ?h1 = symbolSubscribers h" by simp
  have X1: "map_of (clientSubscriptions ?h1) c = Some ?X"
    by (cases "map_of (clientSubscriptions h) c") (simp_all add: update_conv' members_def)
  have cs': "clientSubscriptions ?h' = AList.update c (fold set_add S ?X) ?cs1"
    using clis_fold_add_symbol_eq [OF X1, of S] cs1 by simp
  then have X': "map_of (clientSubscriptions ?h') c = Some (fold set_add S ?X)"
    by (simp add: update_conv')
  have unsub: "handleUnsubscription B c t' d ?h' = fold (remove_symbol c) S ?h'"
    by (simp add: handleUnsubscription_def parse X')
  have "clientSubscriptions (fold (remove_symbol c) S ?h')
          = AList.update c (fold set_delete S (fold set_add S ?X)) (clientSubscriptions ?h')"
    by (rule clis_fold_remove_symbol_eq [OF X'])
  also have "\<dots> = AList.update c ?X ?cs1"
    by (simp only: cs' update_last interests_roundtrip [OF fresh])
  also have "\<dots> = ?cs1"
    using X1 cs1 by (simp only: update_triv)
  finally show "clientSubscriptions (handleUnsubscription B c t' d (handleSubscription B c t d h)) = ?cs1"
    by (simp only: sub unsub)
  have notsub: "\<forall>s \<in> set S. c \<notin> set (members (symbolSubscribers h) s)"
    using fresh inv by (simp add: mutual_inverse_def)
  have nonempty: "\<forall>s \<in> set S. map_of (symbolSubscribers h) s \<noteq> Some []"
    using ne by (simp add: no_empty_entry_def)
  have "symbolSubscribers (fold (remove_symbol c) S ?h')
          = fold (remove_subscriber c) S (fold (add_subscriber c) S (symbolSubscribers h))"
    by (simp only: subs_fold_remove_symbol subs_fold_add_symbol_eq ss1)
  also have "\<dots> = symbolSubscribers h"
    by (rule subscribers_roundtrip [OF notsub nonempty])
  finally show "symbolSubscribers (handleUnsubscription B c t' d (handleSubscription B c t d h))
                  = symbolSubscribers h"
    by (simp only: sub unsub)
  have conn_add: "connectedClients (fold (add_symbol c) S k) = connectedClients k" for k :: "'a hub"
    by (induction S arbitrary: k) (simp_all add: add_symbol_def)
  have conn_rem: "connectedClients (fold (remove_symbol c) S k) = connectedClients k" for k :: "'a hub"
    by (induction S arbitrary: k) (simp_all add: remove_symbol_def)
  show "connectedClients (handleUnsubscription B c t' d (handleSubscription B c t d h))
          = connectedClients h"
    by (simp only: sub unsub conn_add conn_rem) simp
qed

text \<open>
  Claim C4, as amended. In every hub state that a run reaches, for a client \<open>c\<close> and a
  payload whose symbols \<open>S\<close> are primitive values to none of which \<open>c\<close> is subscribed,
  \<open>handleSubscription\<close> followed by \<open>handleUnsubscription\<close> with the same payload
  returns \<open>symbolSubscribers\<close> to exactly its content before the subscription, and
  \<open>clientSubscriptions\<close> too, except that a client that had no entry there keeps one,
  with the empty set. A symbol whose subscriber set becomes empty is removed from the
  symbol index: no symbol is left there with an empty set.
\<close>

theorem subscribe_then_unsubscribe:
  assumes "parse_symbols B d = Inr (Some S)"
      and "\<forall>s \<in> set S. primitive s \<and> s \<notin> set (members (clientSubscriptions (run_hub B evs)) c)"
  shows "symbolSubscribers
           (handleUnsubscription B c t' d (handleSubscription B c t d (run_hub B evs)))
           = symbolSubscribers (run_hub B evs)
       \<and> clientSubscriptions
           (handleUnsubscription B c t' d (handleSubscription B c t d (run_hub B evs)))
           = (if map_of (clientSubscriptions (run_hub B evs)) c = None
              then clientSubscriptions (run_hub B evs) @ [(c, [])]
              else clientSubscriptions (run_hub B evs))
       \<and> map_of (symbolSubscribers
             (handleUnsubscription B c t' d (handleSubscription B c t d (run_hub B evs)))) s
           \<noteq> Some []"
proof -
  from assms(2)
  have fresh: "\<forall>s \<in> set S. s \<notin> set (members (clientSubscriptions (run_hub B evs)) c)"
    by simp
  note rt = roundtrip_general [OF assms(1) fresh mutual_inverse_run no_empty_run]
  have "map_of (symbolSubscribers (run_hub B evs)) s \<noteq> Some []"
    using no_empty_run [of B evs] by (simp add: no_empty_entry_def)
  with rt(1) [of t' t] rt(2) [of t' t] show ?thesis by simp
qed

theorem subscribe_then_unsubscribe_witness:
  "parse_symbols int_builtins (symbols_payload [''VHM'', ''FPT''])
     = Inr (Some [JStr ''VHM'', JStr ''FPT''])
   \<and> primitive (JStr ''VHM'' :: int jsval)
   \<and> JStr ''VHM'' \<notin> set (members (clientSubscriptions (run_hub int_builtins example_events)) ''c3'')
   \<and> primitive (JStr ''FPT'' :: int jsval)
   \<and> JStr ''FPT'' \<notin> set (members (clientSubscriptions (run_hub int_builtins example_events)) ''c3'')
   \<and> symbolSubscribers
       (handleSubscription int_builtins ''c3'' ''match-price'' (symbols_payload [''VHM'', ''FPT''])
         (run_hub int_builtins example_events))
     = [(JStr ''VIC'', [''c1'', ''c2'', ''c3'']), (JStr ''VHM'', [''c1'', ''c3'']),
        (JStr ''VNINDEX'', [''c3'']), (JStr ''FPT'', [''c3''])]
   \<and> symbolSubscribers
       (handleUnsubscription int_builtins ''c3'' ''unsubscribe-match-price''
         (symbols_payload [''VHM'', ''FPT''])
         (handleSubscription int_builtins ''c3'' ''match-price'' (symbols_payload [''VHM'', ''FPT''])
           (run_hub int_builtins example_events)))
     = [(JStr ''VIC'', [''c1'', ''c2'', ''c3'']), (JStr ''VHM'', [''c1'']),
        (JStr ''VNINDEX'', [''c3''])]
   \<and> clientSubscriptions
       (handleUnsubscription int_builtins ''c3'' ''unsubscribe-match-price''
         (symbols_payload [''VHM'', ''FPT''])
         (handleSubscription int_builtins ''c3'' ''match-price'' (symbols_payload [''VHM'', ''FPT''])
           (run_hub int_builtins example_events)))
     = [(''c1'', [JStr ''VIC'', JStr ''VHM'']), (''c2'', [JStr ''VIC'']),
        (''c3'', [JStr ''VIC'', JStr ''VNINDEX''])]"
proof -
  let ?h = "run_hub int_builtins example_events"
  let ?d = "symbols_payload [''VHM'', ''FPT'']"
  let ?S = "[JStr ''VHM'', JStr ''FPT''] :: int jsval list"
  have p: "parse_symbols int_builtins ?d = Inr (Some ?S)"
    by (simp add: hub_eval)
  have f: "\<forall>s \<in> set ?S. primitive s \<and> s \<notin> set (members (clientSubscriptions ?h) ''c3'')"
    by (simp add: example_hub primitive_def members_def)
  have sub: "symbolSubscribers (handleSubscription int_builtins ''c3'' ''match-price'' ?d ?h)
     = [(JStr ''VIC'', [''c1'', ''c2'', ''c3'']), (JStr ''VHM'', [''c1'', ''c3'']),
        (JStr ''VNINDEX'', [''c3'']), (JStr ''FPT'', [''c3''])]"
    by (simp add: example_hub) (simp add: hub_eval)
  have c3: "map_of (clientSubscriptions ?h) ''c3'' \<noteq> None"
    by (simp add: example_hub)
  from subscribe_then_unsubscribe [OF p f, where t = "''match-price''"
      and t' = "''unsubscribe-match-price''" and s = "JStr ''FPT''"] c3
  have "symbolSubscribers
          (handleUnsubscription int_builtins ''c3'' ''unsubscribe-match-price'' ?d
            (handleSubscription int_builtins ''c3'' ''match-price'' ?d ?h))
          = symbolSubscribers ?h"
    and "clientSubscriptions
          (handleUnsubscription int_builtins ''c3'' ''unsubscribe-match-price'' ?d
            (handleSubscription int_builtins ''c3'' ''match-price'' ?d ?h))
          = clientSubscriptions ?h"
    by simp_all
  then show ?thesis
    using p f sub by (simp add: example_hub)
qed

text \<open>
  The claim without the amendment fails twice. A client that already holds \<open>VIC\<close>
  and subscribes to it again, then unsubscribes, has lost the subscription it had before:
  the subscription is idempotent, the removal is not its inverse there. And a client
  without an entry in the client index is left with an entry, holding the empty set.
\<close>

theorem subscribe_then_unsubscribe_counterexample:
  "symbolSubscribers
     (run_hub int_builtins [Subscribe ''c1'' ''match-price'' (symbols_payload [''VIC''])])
     = [(JStr ''VIC'', [''c1''])]
   \<and> symbolSubscribers
       (handleUnsubscription int_builtins ''c1'' ''unsubscribe-match-price'' (symbols_payload [''VIC''])
         (handleSubscription int_builtins ''c1'' ''match-price'' (symbols_payload [''VIC''])
           (run_hub int_builtins [Subscribe ''c1'' ''match-price'' (symbols_payload [''VIC''])])))
     = []
   \<and> clientSubscriptions (run_hub int_builtins []) = []
   \<and> clientSubscriptions
       (handleUnsubscription int_builtins ''c1'' ''unsubscribe-match-price'' (symbols_payload [''VIC''])
         (handleSubscription int_builtins ''c1'' ''match-price'' (symbols_payload [''VIC''])
           (run_hub int_builtins [])))
     = [(''c1'', [])]"
  by (simp add: hub_eval)

subsection \<open>Fan-out\<close>

lemma send_update_serialize: "filter is_serialize (send_update h t b c) = []"
  by (simp add: send_update_def is_serialize_def split: option.splits)

lemma send_update_emit:
  "filter is_emit (send_update h t b c) = (if transport_open h c then [Emit c t b] else [])"
  by (simp add: send_update_def is_emit_def transport_open_def split: option.splits)

lemma sends_serialize: "filter is_serialize (concat (map (send_update h t b) cs)) = []"
  by (induction cs) (simp_all add: send_update_serialize)

lemma sends_emit:
  "filter is_emit (concat (map (send_update h t b) cs))
     = map (\<lambda>c. Emit c t b) (filter (transport_open h) cs)"
  by (induction cs) (simp_all add: send_update_emit)

text \<open>
  Claim C5. When the subscriber set of the symbol is empty or absent, \<open>broadcastUpdate\<close>
  does nothing at all: no serialization, no send, no log. Otherwise it serializes the
  payload exactly once, and the calls of \<open>emit\<close> it makes are, in the order of the
  subscriber set, one for each subscriber whose socket the hub holds and is connected, all
  with the same serialized bytes; a subscriber whose transport is not open is passed over
  (with a warning on the console) and the loop goes on to the next one.
\<close>

theorem broadcastUpdate_fan_out:
  "(members (symbolSubscribers h) symbol = [] \<longrightarrow> broadcastUpdate B symbol eventType data h = [])
   \<and> (members (symbolSubscribers h) symbol \<noteq> [] \<longrightarrow>
        filter is_serialize (broadcastUpdate B symbol eventType data h) = [Serialize data]
      \<and> filter is_emit (broadcastUpdate B symbol eventType data h)
          = map (\<lambda>c. Emit c eventType (convertToBinaryData B data))
              (filter (transport_open h) (members (symbolSubscribers h) symbol)))"
proof (cases "map_of (symbolSubscribers h) symbol")
  case None
  then show ?thesis by (simp add: broadcastUpdate_def members_def)
next
  case (Some subscribers)
  then have m: "members (symbolSubscribers h) symbol = subscribers" by (simp add: members_def)
  show ?thesis
  proof (cases "subscribers = []")
    case True
    with Some m show ?thesis by (simp add: broadcastUpdate_def)
  next
    case False
    with Some m show ?thesis
      by (simp add: broadcastUpdate_def sends_serialize sends_emit is_serialize_def is_emit_def)
  qed
qed

theorem broadcastUpdate_fan_out_witness:
  "members (symbolSubscribers (run_hub int_builtins example_events)) (JStr ''FPT'') = []
   \<and> broadcastUpdate int_builtins (JStr ''FPT'') ''match-price'' (JObj [(''symbol'', JStr ''FPT'')])
       (run_hub int_builtins example_events) = []
   \<and> members (symbolSubscribers (run_hub int_builtins example_events)) (JStr ''VIC'')
       = [''c1'', ''c2'', ''c3'']
   \<and> filter is_serialize
       (broadcastUpdate int_builtins (JStr ''VIC'') ''match-price'' (JObj [(''symbol'', JStr ''VIC'')])
         (run_hub int_builtins example_events))
       = [Serialize (JObj [(''symbol'', JStr ''VIC'')])]
   \<and> filter is_emit
       (broadcastUpdate int_builtins (JStr ''VIC'') ''match-price'' (JObj [(''symbol'', JStr ''VIC'')])
         (run_hub int_builtins example_events))
       = [Emit ''c1'' ''match-price'' ''{symbol:VIC}'', Emit ''c3'' ''match-price'' ''{symbol:VIC}'']"
proof -
  let ?h = "run_hub int_builtins example_events"
  have none: "members (symbolSubscribers ?h) (JStr ''FPT'') = []"
    by (simp add: example_hub members_def)
  have some: "members (symbolSubscribers ?h) (JStr ''VIC'') = [''c1'', ''c2'', ''c3'']"
    by (simp add: example_hub members_def)
  have opens: "filter (transport_open ?h) [''c1'', ''c2'', ''c3''] = [''c1'', ''c3'']"
    by (simp add: example_hub transport_open_def open_socket_def closed_socket_def)
  have bytes: "convertToBinaryData int_builtins (JObj [(''symbol'', JStr ''VIC'')]) = ''{symbol:VIC}''"
    by (simp add: convertToBinaryData_def int_builtins_def get_prop_def)
  from broadcastUpdate_fan_out [of ?h "JStr ''FPT''" int_builtins "''match-price''"
      "JObj [(''symbol'', JStr ''FPT'')]"] none
  have a: "broadcastUpdate int_builtins (JStr ''FPT'') ''match-price''
             (JObj [(''symbol'', JStr ''FPT'')]) ?h = []"
    by blast
  from broadcastUpdate_fan_out [of ?h "JStr ''VIC''" int_builtins "''match-price''"
      "JObj [(''symbol'', JStr ''VIC'')]"] some
  have ser: "filter is_serialize
          (broadcastUpdate int_builtins (JStr ''VIC'') ''match-price''
            (JObj [(''symbol'', JStr ''VIC'')]) ?h)
          = [Serialize (JObj [(''symbol'', JStr ''VIC'')])]"
    and em: "filter is_emit
          (broadcastUpdate int_builtins (JStr ''VIC'') ''match-price''
            (JObj [(''symbol'', JStr ''VIC'')]) ?h)
          = map (\<lambda>c. Emit c ''match-price''
                   (convertToBinaryData int_builtins (JObj [(''symbol'', JStr ''VIC'')])))
              (filter (transport_open ?h) [''c1'', ''c2'', ''c3''])"
    by simp_all
  have "filter is_emit
          (broadcastUpdate int_builtins (JStr ''VIC'') ''match-price''
            (JObj [(''symbol'', JStr ''VIC'')]) ?h)
          = [Emit ''c1'' ''match-price'' ''{symbol:VIC}'', Emit ''c3'' ''match-price'' ''{symbol:VIC}'']"
    unfolding em opens bytes by simp
  with none some a ser show ?thesis by blast
qed

lemma emit_in_send_update:
  "Emit c t b \<in> set (send_update h t' b' c') \<longleftrightarrow> (c = c' \<and> t = t' \<and> b = b' \<and> transport_open h c')"
  by (auto simp: send_update_def transport_open_def split: option.splits)

lemma emit_in_broadcastUpdate:
  "Emit c t b \<in> set (broadcastUpdate B symbol t' data h) \<longleftrightarrow>
     (c \<in> set (members (symbolSubscribers h) symbol) \<and> transport_open h c
      \<and> t = t' \<and> b = convertToBinaryData B data)"
proof (cases "map_of (symbolSubscribers h) symbol")
  case None
  then show ?thesis by (simp add: broadcastUpdate_def members_def)
next
  case (Some subscribers)
  then have m: "members (symbolSubscribers h) symbol = subscribers" by (simp add: members_def)
  show ?thesis
  proof (cases "subscribers = []")
    case True
    with Some m show ?thesis by (simp add: broadcastUpdate_def)
  next
    case False
    with Some m show ?thesis
      by (auto simp: broadcastUpdate_def emit_in_send_update)
  qed
qed

lemma handleDisconnection_subscribers:
  "s \<in> set (members (clientSubscriptions h) c) \<Longrightarrow>
     c \<notin> set (members (symbolSubscribers (handleDisconnection c h)) s)"
  by (cases "map_of (clientSubscriptions h) c")
     (simp_all add: handleDisconnection_def Let_def members_def fold_remove_subscriber [unfolded members_def])

subsection \<open>The hub after a subscription\<close>

lemma connectedClients_fold_add_symbol:
  "connectedClients (fold (add_symbol c) S h) = connectedClients h"
  by (induction S arbitrary: h) (simp_all add: add_symbol_def)

lemma connectedClients_handleSubscription:
  "connectedClients (handleSubscription B c t d h) = connectedClients h"
  by (simp add: handleSubscription_def connectedClients_fold_add_symbol
        split: sum.splits option.splits)

lemma handleSubscription_subscribers:
  "parse_symbols B d = Inr (Some S) \<Longrightarrow>
     set (members (symbolSubscribers (handleSubscription B c t d h)) s)
       = (if s \<in> set S then insert c (set (members (symbolSubscribers h) s))
          else set (members (symbolSubscribers h) s))"
  by (simp add: handleSubscription_def subs_fold_add_symbol)

lemma handleSubscription_interests:
  "parse_symbols B d = Inr (Some S) \<Longrightarrow>
     set (members (clientSubscriptions (handleSubscription B c t d h)) c)
       = set (members (clientSubscriptions h) c) \<union> set S"
  by (simp add: handleSubscription_def clis_fold_add_symbol members_update) (simp add: members_def)

subsection \<open>Disconnection\<close>

lemma handleUnsubscription_subscribers_subset:
  "set (members (symbolSubscribers (handleUnsubscription B c' t d h)) s)
     \<subseteq> set (members (symbolSubscribers h) s)"
  by (auto simp: handleUnsubscription_def subs_fold_remove_symbol fold_remove_subscriber
        split: sum.splits option.splits if_splits)

lemma handleDisconnection_subscribers_subset:
  "set (members (symbolSubscribers (handleDisconnection c' h)) s)
     \<subseteq> set (members (symbolSubscribers h) s)"
  by (auto simp: handleDisconnection_def Let_def fold_remove_subscriber
        split: option.splits if_splits)

lemma handleSubscription_other:
  assumes "c' \<noteq> c" and "c \<notin> set (members (symbolSubscribers h) s)"
  shows "c \<notin> set (members (symbolSubscribers (handleSubscription B c' t d h)) s)"
proof (cases "parse_symbols B d")
  case (Inl e)
  with assms show ?thesis by (simp add: handleSubscription_def)
next
  case (Inr r)
  show ?thesis
  proof (cases r)
    case None
    with Inr assms show ?thesis by (simp add: handleSubscription_def)
  next
    case (Some S)
    with Inr have "parse_symbols B d = Inr (Some S)" by simp
    from handleSubscription_subscribers [OF this] assms show ?thesis by auto
  qed
qed

lemma step_keeps_absent:
  assumes "\<not> subscribes c ev" and "c \<notin> set (members (symbolSubscribers h) s)"
  shows "c \<notin> set (members (symbolSubscribers (hub_step B ev h)) s)"
proof (cases ev)
  case (Connection c' k)
  with assms show ?thesis by (simp add: onConnection_def)
next
  case (Subscribe c' t d)
  with assms(1) have "c' \<noteq> c" by (simp add: subscribes_def)
  from handleSubscription_other [OF this assms(2)] Subscribe show ?thesis by simp
next
  case (Unsubscribe c' t d)
  with assms(2) handleUnsubscription_subscribers_subset [of B c' t d h s] show ?thesis by auto
next
  case (Disconnect c')
  with assms(2) handleDisconnection_subscribers_subset [of c' h s] show ?thesis by auto
qed

lemma run_keeps_absent:
  "\<forall>ev \<in> set evs. \<not> subscribes c ev \<Longrightarrow> c \<notin> set (members (symbolSubscribers h) s) \<Longrightarrow>
     c \<notin> set (members (symbolSubscribers (fold (hub_step B) evs h)) s)"
  by (induction evs arbitrary: h) (simp_all add: step_keeps_absent)

text \<open>
  Claim C6. For every hub state, client \<open>c\<close> and symbol \<open>s\<close> in the set of symbols of
  \<open>c\<close>: after \<open>handleDisconnection\<close> of \<open>c\<close>, the client is absent from the subscriber
  set of \<open>s\<close>, from the client index and from the map of connected sockets. A
  \<open>broadcastUpdate\<close> for \<open>s\<close> then makes no call of \<open>emit\<close> for \<open>c\<close>, whatever the
  event type, the payload and the bytes, and that stays so after any further events of
  the hub among which \<open>c\<close> does not subscribe again.
\<close>

theorem disconnect_removes_client:
  assumes "s \<in> set (members (clientSubscriptions h) c)"
      and "\<forall>ev \<in> set evs. \<not> subscribes c ev"
  shows "c \<notin> set (members (symbolSubscribers (handleDisconnection c h)) s)
       \<and> map_of (clientSubscriptions (handleDisconnection c h)) c = None
       \<and> map_of (connectedClients (handleDisconnection c h)) c = None
       \<and> Emit c eventType' bytes
           \<notin> set (broadcastUpdate B s eventType data
                    (fold (hub_step B) evs (handleDisconnection c h)))"
proof -
  have a: "c \<notin> set (members (symbolSubscribers (handleDisconnection c h)) s)"
    using assms(1) by (rule handleDisconnection_subscribers)
  have b: "map_of (clientSubscriptions (handleDisconnection c h)) c = None"
    by (cases "map_of (clientSubscriptions h) c")
       (simp_all add: handleDisconnection_def Let_def delete_conv')
  have c: "map_of (connectedClients (handleDisconnection c h)) c = None"
    by (simp add: handleDisconnection_def Let_def delete_conv')
  from run_keeps_absent [OF assms(2) a]
  have "Emit c eventType' bytes
          \<notin> set (broadcastUpdate B s eventType data
                   (fold (hub_step B) evs (handleDisconnection c h)))"
    by (simp add: emit_in_broadcastUpdate)
  with a b c show ?thesis by simp
qed

theorem disconnect_removes_client_witness:
  "JStr ''VIC'' \<in> set (members (clientSubscriptions (run_hub int_builtins example_events)) ''c1'')
   \<and> \<not> subscribes ''c1'' (Subscribe ''c4'' ''bid-ask'' (symbols_payload [''VIC'']) :: int hub_event)
   \<and> symbolSubscribers (handleDisconnection ''c1'' (run_hub int_builtins example_events))
       = [(JStr ''VIC'', [''c2'', ''c3'']), (JStr ''VNINDEX'', [''c3''])]
   \<and> ''c1'' \<notin> set (members
         (symbolSubscribers (handleDisconnection ''c1'' (run_hub int_builtins example_events)))
         (JStr ''VIC''))
   \<and> map_of (clientSubscriptions (handleDisconnection ''c1'' (run_hub int_builtins example_events)))
       ''c1'' = None
   \<and> map_of (connectedClients (handleDisconnection ''c1'' (run_hub int_builtins example_events)))
       ''c1'' = None
   \<and> Emit ''c1'' ''match-price'' ''{symbol:VIC}''
       \<notin> set (broadcastUpdate int_builtins (JStr ''VIC'') ''match-price''
                (JObj [(''symbol'', JStr ''VIC'')])
                (fold (hub_step int_builtins)
                   [Subscribe ''c4'' ''bid-ask'' (symbols_payload [''VIC''])]
                   (handleDisconnection ''c1'' (run_hub int_builtins example_events))))"
proof -
  let ?h = "run_hub int_builtins example_events"
  let ?evs = "[Subscribe ''c4'' ''bid-ask'' (symbols_payload [''VIC''])] :: int hub_event list"
  have sub: "JStr ''VIC'' \<in> set (members (clientSubscriptions ?h) ''c1'')"
    by (simp add: example_hub members_def)
  have others: "\<forall>ev \<in> set ?evs. \<not> subscribes ''c1'' ev"
    by (simp add: subscribes_def)
  have after: "symbolSubscribers (handleDisconnection ''c1'' ?h)
                 = [(JStr ''VIC'', [''c2'', ''c3'']), (JStr ''VNINDEX'', [''c3''])]"
    by (simp add: example_hub) (simp add: hub_eval)
  from disconnect_removes_client [OF sub others, where eventType' = "''match-price''"
      and bytes = "''{symbol:VIC}''" and B = int_builtins and eventType = "''match-price''"
      and data = "JObj [(''symbol'', JStr ''VIC'')]"] sub others after
  show ?thesis by simp
qed

subsection \<open>Channels\<close>



section \<open>Properties of the pipeline\<close>

lemma str_includes_iff: "str_includes str p \<longleftrightarrow> (\<exists>a b. str = a @ p @ b)"
proof (induction str)
  case Nil
  show ?case by auto
next
  case (Cons x xs)
  show ?case
  proof
    assume "str_includes (x # xs) p"
    then consider "prefix p (x # xs)" | "str_includes xs p" by auto
    then show "\<exists>a b. x # xs = a @ p @ b"
    proof cases
      case 1
      then obtain b where "x # xs = p @ b" by (auto simp: prefix_def)
      then have "x # xs = [] @ p @ b" by simp
      then show ?thesis by blast
    next
      case 2
      with Cons.IH obtain a b where "xs = a @ p @ b" by blast
      then have "x # xs = (x # a) @ p @ b" by simp
      then show ?thesis by blast
    qed
  next
    assume "\<exists>a b. x # xs = a @ p @ b"
    then obtain a b where ab: "x # xs = a @ p @ b" by blast
    show "str_includes (x # xs) p"
    proof (cases a)
      case Nil
      with ab have "prefix p (x # xs)" by (simp add: prefix_def)
      then show ?thesis by simp
    next
      case (Cons y a')
      with ab have "xs = a' @ p @ b" by simp
      with Cons.IH have "str_includes xs p" by blast
      then show ?thesis by simp
    qed
  qed
qed

lemma realtime_updateCache:
  "updateCache B m type w = Inr w' \<Longrightarrow> realtimeManager w' = realtimeManager w"
  by (auto simp: updateCache_def Let_def console_def split: if_splits sum.splits bool.splits)

lemma hub_updateCache:
  "updateCache B m type w = Inr w' \<Longrightarrow> broadcastService w' = broadcastService w"
  by (auto simp: updateCache_def Let_def console_def split: if_splits sum.splits bool.splits)

lemma updateCache_returns:
  assumes "\<not> updateCache_throws B m type"
  shows "\<exists>w'. updateCache B m type w = Inr w'"
proof (cases "type = ''match-price''")
  case True
  with assms have "\<exists>tb. average_price B (get_prop m ''avgMatchPrice'') = Inr tb"
    by (cases "get_prop m ''avgMatchPrice''")
       (simp_all add: updateCache_throws_def average_price_def is_number_def)
  with True show ?thesis by (auto simp: updateCache_def)
next
  case False
  with assms show ?thesis
    by (cases "get_prop m ''symbol''")
       (simp_all add: updateCache_throws_def updateCache_def Let_def js_includes_def
          split: bool.splits)
qed

lemma updateCache_raises:
  assumes "updateCache_throws B m type"
  shows "updateCache B m type w = Inl TypeError"
proof (cases "type = ''match-price''")
  case True
  with assms have "average_price B (get_prop m ''avgMatchPrice'') = Inl TypeError"
    by (cases "get_prop m ''avgMatchPrice''")
       (simp_all add: updateCache_throws_def average_price_def is_number_def)
  with True show ?thesis by (simp add: updateCache_def)
next
  case False
  with assms have i: "type = ''index''" by (simp add: updateCache_throws_def)
  with assms show ?thesis
    by (cases "get_prop m ''symbol''")
       (simp_all add: updateCache_throws_def updateCache_def Let_def js_includes_def)
qed

lemma cache_updateCache_match_price:
  assumes "updateCache B m ''match-price'' w = Inr w'"
  shows "map_of (existingData (cacheManager w') (get_prop m ''symbol'')) ''khopLenhGia''
           = Some (get_prop m ''matchPrice'')"
proof -
  from assms obtain tb where
    w': "w' = w\<lparr>cacheManager :=
                   updateStockData (get_prop m ''symbol'')
                     [(''khopLenhGia'', get_prop m ''matchPrice''),
                      (''khopLenhKL'', get_prop m ''matchVol''),
                      (''khopLenhChange'',
                         num_sub B (get_prop m ''matchPrice'') (get_prop m ''referencePrice'')),
                      (''khopLenhPercent'',
                         num_mul B
                           (num_div B
                              (num_sub B (get_prop m ''matchPrice'')
                                 (get_prop m ''referencePrice''))
                              (get_prop m ''referencePrice''))
                           (JNum (num_hundred B))),
                      (''khopLenhKLGD'', get_prop m ''accumulatedVolume''),
                      (''khopLenhGTGD'', get_prop m ''accumulatedValue''),
                      (''gtgdTT'', get_prop m ''accumulatedValue''),
                      (''nnRoom'', get_prop m ''currentRoom''),
                      (''nnMua'', get_prop m ''foreignBuyVolume''),
                      (''nnBan'', get_prop m ''foreignSellVolume''),
                      (''tb'', tb),
                      (''cao'', get_prop m ''highest''),
                      (''thap'', get_prop m ''lowest'')]
                     (cacheManager w)\<rparr>"
    by (auto simp: updateCache_def split: sum.splits)
  show ?thesis
    unfolding w' by (simp add: existingData_updateStockData map_of_spread)
qed

lemma cache_updateCache_bid_ask:
  assumes "updateCache B m ''bid-ask'' w = Inr w'"
  shows "map_of (existingData (cacheManager w') (get_prop m ''symbol'')) ''duMuaGia1''
           = Some (level B (or_else B (get_prop m ''bidPrices'') (JArr [])) 0 ''price'')"
proof -
  from assms have
    w': "w' = w\<lparr>cacheManager :=
                   updateStockData (get_prop m ''symbol'')
                     [(''duMuaGia1'', level B (or_else B (get_prop m ''bidPrices'') (JArr [])) 0 ''price''),
                      (''duMuaKL1'', level B (or_else B (get_prop m ''bidPrices'') (JArr [])) 0 ''volume''),
                      (''duMuaGia2'', level B (or_else B (get_prop m ''bidPrices'') (JArr [])) 1 ''price''),
                      (''duMuaKL2'', level B (or_else B (get_prop m ''bidPrices'') (JArr [])) 1 ''volume''),
                      (''duMuaGia3'', level B (or_else B (get_prop m ''bidPrices'') (JArr [])) 2 ''price''),
                      (''duMuaKL3'', level B (or_else B (get_prop m ''bidPrices'') (JArr [])) 2 ''volume''),
                      (''duBanGia1'', level B (or_else B (get_prop m ''askPrices'') (JArr [])) 0 ''price''),
                      (''duBanKL1'', level B (or_else B (get_prop m ''askPrices'') (JArr [])) 0 ''volume''),
                      (''duBanGia2'', level B (or_else B (get_prop m ''askPrices'') (JArr [])) 1 ''price''),
                      (''duBanKL2'', level B (or_else B (get_prop m ''askPrices'') (JArr [])) 1 ''volume''),
                      (''duBanGia3'', level B (or_else B (get_prop m ''askPrices'') (JArr [])) 2 ''price''),
                      (''duBanKL3'', level B (or_else B (get_prop m ''askPrices'') (JArr [])) 2 ''volume'')]
                     (cacheManager w)\<rparr>"
    by (auto simp: updateCache_def Let_def)
  show ?thesis
    unfolding w' by (simp add: existingData_updateStockData map_of_spread)
qed

text \<open>
  Claim C7, as amended. \<open>handleMessage\<close> on a message of a known type, with any
  callback that returns normally, as the one of \<open>startServer\<close> does, behaves as
  follows. When the decoder succeeds on an event that carries a symbol and on which
  \<open>updateCache\<close> does not throw, \<open>updateCache\<close> returns a world with the hub and the
  upstream connection as they were, whose cache holds the price of a \<open>match-price\<close>
  event and the best bid of a \<open>bid-ask\<close> event under the symbol of the event, and the
  result is the callback applied to the same decoded event in that world: the cache is
  written first, and the callback runs on what the cache update left. When the decoder
  throws, when the decoded symbol is missing or empty, or when \<open>updateCache\<close> throws (a
  \<open>match-price\<close> event whose average price is truthy and not a number, an \<open>index\<close> event
  whose symbol is neither a string nor an array), the world is the one before with one
  line added to the console: nothing is written to the cache, the callback is not
  called, the message alone is dropped. Whatever exception the body of the \<open>try\<close>
  raises, \<open>handleMessage\<close> catches it, logs it and returns normally, so no error reaches
  the caller. With the callback of \<open>startServer\<close> the state of the upstream connection
  is in every case left as it was.
\<close>

theorem handleMessage_pipeline:
  assumes "map_of messageTypes type = Some decode"
  shows "(decode data = Inr m \<and> truthy B (get_prop m ''symbol'') \<and> \<not> updateCache_throws B m type
          \<longrightarrow> (\<exists>w'. updateCache B m type w = Inr w'
                 \<and> handleMessage B messageTypes (Some cb) type data w = cb m type w'
                 \<and> broadcastService w' = broadcastService w
                 \<and> realtimeManager w' = realtimeManager w
                 \<and> (type = ''match-price''
                      \<longrightarrow> map_of (existingData (cacheManager w') (get_prop m ''symbol'')) ''khopLenhGia''
                            = Some (get_prop m ''matchPrice''))
                 \<and> (type = ''bid-ask''
                      \<longrightarrow> map_of (existingData (cacheManager w') (get_prop m ''symbol'')) ''duMuaGia1''
                            = Some (level B (or_else B (get_prop m ''bidPrices'') (JArr [])) 0
                                      ''price''))))
       \<and> (decode data = Inr m \<and> truthy B (get_prop m ''symbol'') \<and> updateCache_throws B m type
          \<longrightarrow> handleMessage B messageTypes (Some cb) type data w
                = w\<lparr>effects := effects w @ [ConsoleError ''[SOCKET-MSG] Error processing message'']\<rparr>)
       \<and> (decode data = Inl e
          \<longrightarrow> handleMessage B messageTypes (Some cb) type data w
                = w\<lparr>effects := effects w @ [ConsoleError ''[SOCKET-MSG] Error processing message'']\<rparr>)
       \<and> (decode data = Inr m \<and> \<not> truthy B (get_prop m ''symbol'')
          \<longrightarrow> handleMessage B messageTypes (Some cb) type data w
                = w\<lparr>effects := effects w @ [ConsoleWarn ''[SOCKET-MSG] Missing symbol'']\<rparr>)
       \<and> (handleMessage_try B messageTypes (Some cb) type data w = Inl e'
          \<longrightarrow> handleMessage B messageTypes (Some cb) type data w
                = w\<lparr>effects := effects w @ [ConsoleError ''[SOCKET-MSG] Error processing message'']\<rparr>)
       \<and> realtimeManager (handleMessage B messageTypes (Some (startServer_onUpdate B)) type data w)
           = realtimeManager w"
proof (intro conjI impI)
  assume a: "decode data = Inr m \<and> truthy B (get_prop m ''symbol'') \<and> \<not> updateCache_throws B m type"
  then obtain w' where w': "updateCache B m type w = Inr w'"
    using updateCache_returns [of B m type w] by blast
  from a w' assms
  have h: "handleMessage B messageTypes (Some cb) type data w = cb m type w'"
    by (simp add: handleMessage_def handleMessage_try_def)
  have mp: "type = ''match-price''
              \<longrightarrow> map_of (existingData (cacheManager w') (get_prop m ''symbol'')) ''khopLenhGia''
                    = Some (get_prop m ''matchPrice'')"
    using w' cache_updateCache_match_price [of B m w w'] by blast
  have ba: "type = ''bid-ask''
              \<longrightarrow> map_of (existingData (cacheManager w') (get_prop m ''symbol'')) ''duMuaGia1''
                    = Some (level B (or_else B (get_prop m ''bidPrices'') (JArr [])) 0 ''price'')"
    using w' cache_updateCache_bid_ask [of B m w w'] by blast
  from w' h mp ba hub_updateCache [OF w'] realtime_updateCache [OF w']
  show "\<exists>w'. updateCache B m type w = Inr w'
                 \<and> handleMessage B messageTypes (Some cb) type data w = cb m type w'
                 \<and> broadcastService w' = broadcastService w
                 \<and> realtimeManager w' = realtimeManager w
                 \<and> (type = ''match-price''
                      \<longrightarrow> map_of (existingData (cacheManager w') (get_prop m ''symbol'')) ''khopLenhGia''
                            = Some (get_prop m ''matchPrice''))
                 \<and> (type = ''bid-ask''
                      \<longrightarrow> map_of (existingData (cacheManager w') (get_prop m ''symbol'')) ''duMuaGia1''
                            = Some (level B (or_else B (get_prop m ''bidPrices'') (JArr [])) 0
                                      ''price''))"
    by blast
next
  assume "decode data = Inr m \<and> truthy B (get_prop m ''symbol'') \<and> updateCache_throws B m type"
  with assms updateCache_raises [of B m type w]
  show "handleMessage B messageTypes (Some cb) type data w
          = w\<lparr>effects := effects w @ [ConsoleError ''[SOCKET-MSG] Error processing message'']\<rparr>"
    by (simp add: handleMessage_def handleMessage_try_def console_def)
next
  assume "decode data = Inl e"
  with assms show "handleMessage B messageTypes (Some cb) type data w
          = w\<lparr>effects := effects w @ [ConsoleError ''[SOCKET-MSG] Error processing message'']\<rparr>"
    by (simp add: handleMessage_def handleMessage_try_def console_def)
next
  assume "decode data = Inr m \<and> \<not> truthy B (get_prop m ''symbol'')"
  with assms show "handleMessage B messageTypes (Some cb) type data w
          = w\<lparr>effects := effects w @ [ConsoleWarn ''[SOCKET-MSG] Missing symbol'']\<rparr>"
    by (simp add: handleMessage_def handleMessage_try_def console_def)
next
  assume "handleMessage_try B messageTypes (Some cb) type data w = Inl e'"
  then show "handleMessage B messageTypes (Some cb) type data w
          = w\<lparr>effects := effects w @ [ConsoleError ''[SOCKET-MSG] Error processing message'']\<rparr>"
    by (simp add: handleMessage_def console_def)
next
  show "realtimeManager (handleMessage B messageTypes (Some (startServer_onUpdate B)) type data w)
           = realtimeManager w"
    using assms
    by (auto simp: handleMessage_def handleMessage_try_def console_def startServer_onUpdate_def
          realtime_updateCache split: sum.splits)
qed

theorem handleMessage_pipeline_witness:
  "map_of example_messageTypes ''match-price'' = Some example_decode
   \<and> example_decode ''trade''
       = Inr [(''symbol'', JStr ''VIC''), (''matchPrice'', JNum 105), (''referencePrice'', JNum 100),
              (''avgMatchPrice'', JNum 104)]
   \<and> truthy int_builtins
       (get_prop [(''symbol'', JStr ''VIC''), (''matchPrice'', JNum (105::int)),
                  (''referencePrice'', JNum 100), (''avgMatchPrice'', JNum 104)] ''symbol'')
   \<and> \<not> updateCache_throws int_builtins
         [(''symbol'', JStr ''VIC''), (''matchPrice'', JNum (105::int)),
          (''referencePrice'', JNum 100), (''avgMatchPrice'', JNum 104)] ''match-price''
   \<and> map_of (existingData
         (cacheManager
           (handleMessage int_builtins example_messageTypes (Some (startServer_onUpdate int_builtins))
              ''match-price'' ''trade'' example_world))
         (JStr ''VIC'')) ''khopLenhGia'' = Some (JNum 105)
   \<and> effects
       (handleMessage int_builtins example_messageTypes (Some (startServer_onUpdate int_builtins))
          ''match-price'' ''trade'' example_world)
       = [Serialize (JObj [(''symbol'', JStr ''VIC''), (''matchPrice'', JNum 105),
                           (''referencePrice'', JNum 100), (''avgMatchPrice'', JNum 104)]),
          Emit ''c1'' ''match-price'' ''{symbol:VIC}'',
          ConsoleWarn ''[BROADCAST] Client not connected, skipping'',
          Emit ''c3'' ''match-price'' ''{symbol:VIC}'']
   \<and> example_decode ''garbage'' = Inl DecodeError
   \<and> handleMessage int_builtins example_messageTypes (Some (startServer_onUpdate int_builtins))
        ''match-price'' ''garbage'' example_world
       = example_world\<lparr>effects := [ConsoleError ''[SOCKET-MSG] Error processing message'']\<rparr>
   \<and> example_decode ''nosymbol'' = Inr [(''symbol'', JStr []), (''matchPrice'', JNum 105)]
   \<and> \<not> truthy int_builtins (get_prop [(''symbol'', JStr []), (''matchPrice'', JNum (105::int))] ''symbol'')
   \<and> handleMessage int_builtins example_messageTypes (Some (startServer_onUpdate int_builtins))
        ''match-price'' ''nosymbol'' example_world
       = example_world\<lparr>effects := [ConsoleWarn ''[SOCKET-MSG] Missing symbol'']\<rparr>
   \<and> isConnected (realtimeManager
         (handleMessage int_builtins example_messageTypes (Some (startServer_onUpdate int_builtins))
            ''match-price'' ''trade'' example_world))"
proof -
  let ?m = "[(''symbol'', JStr ''VIC''), (''matchPrice'', JNum (105::int)),
             (''referencePrice'', JNum 100), (''avgMatchPrice'', JNum 104)]"
  let ?n = "[(''symbol'', JStr []), (''matchPrice'', JNum (105::int))]"
  let ?run = "\<lambda>data. handleMessage int_builtins example_messageTypes
                 (Some (startServer_onUpdate int_builtins)) ''match-price'' data example_world"
  have t: "map_of example_messageTypes ''match-price'' = Some example_decode"
    by (simp add: example_messageTypes_def)
  have d1: "example_decode ''trade'' = Inr ?m" by (rule example_decode_trade)
  have d2: "example_decode ''garbage'' = Inl DecodeError" by (simp add: example_decode_def)
  have d3: "example_decode ''nosymbol'' = Inr ?n" by (simp add: example_decode_def)
  have s: "get_prop ?m ''symbol'' = JStr ''VIC''" "get_prop ?m ''matchPrice'' = JNum 105"
    by (simp_all add: get_prop_def)
  have typed: "truthy int_builtins (get_prop ?m ''symbol'')"
      "\<not> updateCache_throws int_builtins ?m ''match-price''"
    by (simp_all add: get_prop_def truthy_def updateCache_throws_def is_number_def)
  have falsy: "\<not> truthy int_builtins (get_prop ?n ''symbol'')"
    by (simp add: get_prop_def truthy_def)
  have eff: "effects example_world = []" by (simp add: example_world_def)
  note thm1 = handleMessage_pipeline [OF t, where data = "''trade''" and m = ?m
      and B = int_builtins and w = example_world and e = DecodeError
      and cb = "startServer_onUpdate int_builtins"]
  note thm2 = handleMessage_pipeline [OF t, where data = "''garbage''" and m = ?m
      and B = int_builtins and w = example_world and e = DecodeError
      and cb = "startServer_onUpdate int_builtins"]
  note thm3 = handleMessage_pipeline [OF t, where data = "''nosymbol''" and m = ?n
      and B = int_builtins and w = example_world and e = DecodeError
      and cb = "startServer_onUpdate int_builtins"]
  from thm1 d1 typed obtain w' where
      r: "?run ''trade'' = startServer_onUpdate int_builtins ?m ''match-price'' w'"
      and hub: "broadcastService w' = broadcastService example_world"
      and price: "map_of (existingData (cacheManager w') (get_prop ?m ''symbol'')) ''khopLenhGia''
                    = Some (get_prop ?m ''matchPrice'')"
      and w': "updateCache int_builtins ?m ''match-price'' example_world = Inr w'"
    by blast
  have hub': "broadcastService w' = run_hub int_builtins example_events"
    using hub by (simp add: example_world_def)
  have eff': "effects w' = []"
    using w' by (auto simp: cache_eval example_world_def int_builtins_def get_prop_def)
  have a: "map_of (existingData (cacheManager (?run ''trade'')) (JStr ''VIC'')) ''khopLenhGia''
             = Some (JNum 105)"
    using price unfolding s by (simp add: r startServer_onUpdate_def)
  have b: "effects (?run ''trade'')
       = [Serialize (JObj ?m),
          Emit ''c1'' ''match-price'' ''{symbol:VIC}'',
          ConsoleWarn ''[BROADCAST] Client not connected, skipping'',
          Emit ''c3'' ''match-price'' ''{symbol:VIC}'']"
    unfolding r
    by (simp add: startServer_onUpdate_def hub' eff' example_hub get_prop_def)
       (simp add: broadcast_eval int_builtins_def get_prop_def open_socket_def closed_socket_def)
  from thm2 d2 have c: "?run ''garbage''
       = example_world\<lparr>effects := [ConsoleError ''[SOCKET-MSG] Error processing message'']\<rparr>"
    unfolding eff by simp
  from thm3 d3 falsy have d: "?run ''nosymbol''
       = example_world\<lparr>effects := [ConsoleWarn ''[SOCKET-MSG] Missing symbol'']\<rparr>"
    unfolding eff by simp
  from thm1 have "realtimeManager (?run ''trade'') = realtimeManager example_world"
    by blast
  then have e: "isConnected (realtimeManager (?run ''trade''))"
    by (simp add: example_world_def)
  from t d1 typed a b d2 c d3 falsy d e show ?thesis by blast
qed

text \<open>
  The claim as it stands fails on a decoded event that carries a symbol. The decoder
  succeeds on a \<open>match-price\<close> event for \<open>VIC\<close>, to which two connected clients are
  subscribed, whose average price is the text \<open>104\<close>: \<open>toFixed\<close> throws inside
  \<open>updateCache\<close>, the \<open>catch\<close> of \<open>handleMessage\<close> logs it, and neither is the cache
  written nor is anything published.
\<close>

theorem handleMessage_pipeline_counterexample:
  "map_of example_messageTypes ''match-price'' = Some example_decode
   \<and> example_decode ''textavg''
       = Inr [(''symbol'', JStr ''VIC''), (''matchPrice'', JNum 105), (''referencePrice'', JNum 100),
              (''avgMatchPrice'', JStr ''104'')]
   \<and> members (symbolSubscribers (broadcastService example_world)) (JStr ''VIC'')
       = [''c1'', ''c2'', ''c3'']
   \<and> cacheManager
       (handleMessage int_builtins example_messageTypes (Some (startServer_onUpdate int_builtins))
          ''match-price'' ''textavg'' example_world)
       = cacheManager example_world
   \<and> stockData (cacheManager example_world) = []
   \<and> effects example_world = []
   \<and> effects
       (handleMessage int_builtins example_messageTypes (Some (startServer_onUpdate int_builtins))
          ''match-price'' ''textavg'' example_world)
       = [ConsoleError ''[SOCKET-MSG] Error processing message'']"
proof -
  have t: "map_of example_messageTypes ''match-price'' = Some example_decode"
    by (simp add: example_messageTypes_def)
  have d: "example_decode ''textavg''
       = Inr [(''symbol'', JStr ''VIC''), (''matchPrice'', JNum 105), (''referencePrice'', JNum 100),
              (''avgMatchPrice'', JStr ''104'')]"
    by (simp add: example_decode_def)
  have subs: "members (symbolSubscribers (broadcastService example_world)) (JStr ''VIC'')
       = [''c1'', ''c2'', ''c3'']"
    by (simp add: example_world_def example_hub members_def)
  have run: "handleMessage int_builtins example_messageTypes (Some (startServer_onUpdate int_builtins))
          ''match-price'' ''textavg'' example_world
       = example_world\<lparr>effects := [ConsoleError ''[SOCKET-MSG] Error processing message'']\<rparr>"
    by (simp add: handleMessage_def handleMessage_try_def t d)
       (simp add: cache_eval get_prop_def example_world_def)
  have c0: "stockData (cacheManager example_world) = []" "effects example_world = []"
    by (simp_all add: example_world_def newCacheManager_def)
  from t d subs c0 show ?thesis unfolding run by simp
qed

text \<open>
  Claim C10. For a decoded event of type \<open>index\<close> whose symbol is a non-empty string
  that does not contain \<open>VN30\<close>, \<open>updateCache\<close> returns the world it was given: nothing
  is written to the stock data, to the market indexes or to their counters. The event is
  still handed to the callback, so \<open>handleMessage\<close> is the publication of that event on
  the unchanged world.
\<close>

theorem index_without_VN30_leaves_cache:
  assumes "map_of messageTypes ''index'' = Some decode" and "decode data = Inr m"
      and "get_prop m ''symbol'' = JStr name" and "name \<noteq> []"
      and "\<not> str_includes name ''VN30''"
  shows "updateCache B m ''index'' w = Inr w
       \<and> handleMessage B messageTypes (Some (startServer_onUpdate B)) ''index'' data w
           = startServer_onUpdate B m ''index'' w
       \<and> cacheManager (handleMessage B messageTypes (Some (startServer_onUpdate B)) ''index'' data w)
           = cacheManager w"
proof -
  have u: "updateCache B m ''index'' w = Inr w"
    using assms(3,5) by (simp add: updateCache_def js_includes_def)
  have "truthy B (get_prop m ''symbol'')" using assms(3,4) by (simp add: truthy_def)
  with u assms(1,2)
  have h: "handleMessage B messageTypes (Some (startServer_onUpdate B)) ''index'' data w
          = startServer_onUpdate B m ''index'' w"
    by (simp add: handleMessage_def handleMessage_try_def)
  with u show ?thesis by (simp add: startServer_onUpdate_def)
qed

theorem index_without_VN30_leaves_cache_witness:
  "map_of example_messageTypes ''index'' = Some example_decode
   \<and> example_decode ''vnindex'' = Inr [(''symbol'', JStr ''VNINDEX''), (''price'', JNum 1250)]
   \<and> get_prop [(''symbol'', JStr ''VNINDEX''), (''price'', JNum (1250::int))] ''symbol''
       = JStr ''VNINDEX''
   \<and> ''VNINDEX'' \<noteq> []
   \<and> \<not> str_includes ''VNINDEX'' ''VN30''
   \<and> cacheManager
       (handleMessage int_builtins example_messageTypes (Some (startServer_onUpdate int_builtins))
          ''index'' ''vnindex'' example_world)
       = newCacheManager 0
   \<and> effects
       (handleMessage int_builtins example_messageTypes (Some (startServer_onUpdate int_builtins))
          ''index'' ''vnindex'' example_world)
       = [Serialize (JObj [(''symbol'', JStr ''VNINDEX''), (''price'', JNum 1250)]),
          Emit ''c3'' ''index'' ''{symbol:VNINDEX}'']"
proof -
  let ?m = "[(''symbol'', JStr ''VNINDEX''), (''price'', JNum (1250::int))]"
  have t: "map_of example_messageTypes ''index'' = Some example_decode"
    by (simp add: example_messageTypes_def)
  have d: "example_decode ''vnindex'' = Inr ?m" by (simp add: example_decode_def)
  have s: "get_prop ?m ''symbol'' = JStr ''VNINDEX''" by (simp add: get_prop_def)
  have ne: "''VNINDEX'' \<noteq> []" by simp
  have no: "\<not> str_includes ''VNINDEX'' ''VN30''" by simp
  note inst = index_without_VN30_leaves_cache [OF t d s ne no, where B = int_builtins
      and w = example_world]
  from inst have r: "handleMessage int_builtins example_messageTypes
          (Some (startServer_onUpdate int_builtins)) ''index'' ''vnindex'' example_world
        = startServer_onUpdate int_builtins ?m ''index'' example_world"
    by blast
  from inst have same: "cacheManager
       (handleMessage int_builtins example_messageTypes (Some (startServer_onUpdate int_builtins))
          ''index'' ''vnindex'' example_world) = cacheManager example_world"
    by blast
  have a: "cacheManager
       (handleMessage int_builtins example_messageTypes (Some (startServer_onUpdate int_builtins))
          ''index'' ''vnindex'' example_world) = newCacheManager 0"
    unfolding same by (simp add: example_world_def)
  have b: "effects
       (handleMessage int_builtins example_messageTypes (Some (startServer_onUpdate int_builtins))
          ''index'' ''vnindex'' example_world)
       = [Serialize (JObj ?m), Emit ''c3'' ''index'' ''{symbol:VNINDEX}'']"
    unfolding r
    by (simp add: startServer_onUpdate_def example_world_def example_hub get_prop_def)
       (simp add: broadcast_eval int_builtins_def get_prop_def open_socket_def closed_socket_def)
  from t d s ne no a b show ?thesis by blast
qed

section \<open>Properties of the upstream connection\<close>

lemma attempts_on_connect_error:
  "reconnectAttempts (realtimeManager (on_connect_error w))
     = reconnectAttempts (realtimeManager w) + 1"
  by (simp add: on_connect_error_def Let_def console_def)

lemma isConnected_on_connect_error:
  "isConnected (realtimeManager (on_connect_error w)) = isConnected (realtimeManager w)"
  by (simp add: on_connect_error_def Let_def console_def)

lemma max_on_connect_error:
  "maxReconnectAttempts (realtimeManager (on_connect_error w))
     = maxReconnectAttempts (realtimeManager w)"
  by (simp add: on_connect_error_def Let_def console_def)

lemma attempts_failures:
  "reconnectAttempts (realtimeManager ((on_connect_error ^^ n) w))
     = reconnectAttempts (realtimeManager w) + n"
  by (induction n) (simp_all add: attempts_on_connect_error)

lemma isConnected_failures:
  "isConnected (realtimeManager ((on_connect_error ^^ n) w)) = isConnected (realtimeManager w)"
  by (induction n) (simp_all add: isConnected_on_connect_error)

lemma max_failures:
  "maxReconnectAttempts (realtimeManager ((on_connect_error ^^ n) w))
     = maxReconnectAttempts (realtimeManager w)"
  by (induction n) (simp_all add: max_on_connect_error)

lemma last_effect_on_connect_error:
  "maxReconnectAttempts (realtimeManager w) \<le> reconnectAttempts (realtimeManager w) + 1 \<Longrightarrow>
     last (effects (on_connect_error w))
       = ConsoleError ''[REALTIME] Max reconnection attempts reached''"
  by (simp add: on_connect_error_def Let_def console_def)

lemma attempts_subscribeToSymbols:
  "reconnectAttempts (realtimeManager (subscribeToSymbols B w))
     = reconnectAttempts (realtimeManager w)"
  by (simp add: subscribeToSymbols_def Let_def console_def)

lemma attempts_invoke:
  "reconnectAttempts (realtimeManager (invoke B cmd w)) = reconnectAttempts (realtimeManager w)"
  by (cases cmd)
     (simp_all add: initialize_def updateSymbols_def cleanup_def Let_def console_def
        attempts_subscribeToSymbols)

lemma on_connect_resets:
  "reconnectAttempts (realtimeManager (on_connect B w)) = 0
   \<and> isConnected (realtimeManager (on_connect B w))"
  by (simp add: on_connect_def subscribeToSymbols_def Let_def console_def)

lemma on_connect_subscribes:
  "has_socket (realtimeManager w) \<Longrightarrow>
     effects (on_connect B w) =
       effects w @
         [UpstreamEmit ''match-price''
            (json_stringify B (JObj [(''symbols'', JArr (feed_symbols (realtimeManager w)))])),
          UpstreamEmit ''bid-ask''
            (json_stringify B (JObj [(''symbols'', JArr (feed_symbols (realtimeManager w)))])),
          UpstreamEmit ''index''
            (json_stringify B
               (JObj [(''symbols'',
                  JArr [JStr ''VN30'', JStr ''VNINDEX'', JStr ''HNX30'', JStr ''HNXIndex'',
                        JStr ''HNXUpcomIndex''])]))]"
  by (simp add: on_connect_def subscribeToSymbols_def Let_def)

lemma failures_while_connecting:
  assumes "phase u = Connecting" and "reconnection u"
      and "backoff_attempts u + n \<le> reconnectionAttempts u"
  shows "(feed_step B AttemptFails ^^ n) (u, w)
           = (u\<lparr>backoff_attempts := backoff_attempts u + n, issued := issued u + n\<rparr>,
              (on_connect_error ^^ n) w)"
  using assms
proof (induction n)
  case 0
  show ?case by simp
next
  case (Suc n)
  then have "(feed_step B AttemptFails ^^ n) (u, w)
           = (u\<lparr>backoff_attempts := backoff_attempts u + n, issued := issued u + n\<rparr>,
              (on_connect_error ^^ n) w)"
    by simp
  with Suc.prems show ?case by (simp add: reconnect_def)
qed

lemma failures_until_exhausted:
  assumes "phase u = Connecting" and "reconnection u"
      and "backoff_attempts u \<le> reconnectionAttempts u"
  shows "(feed_step B AttemptFails ^^ Suc (reconnectionAttempts u - backoff_attempts u)) (u, w)
           = (u\<lparr>phase := Exhausted, backoff_attempts := 0,
                issued := issued u + (reconnectionAttempts u - backoff_attempts u)\<rparr>,
              (on_connect_error ^^ Suc (reconnectionAttempts u - backoff_attempts u)) w)"
proof -
  from assms(3)
  have "backoff_attempts u + (reconnectionAttempts u - backoff_attempts u) \<le> reconnectionAttempts u"
    by simp
  from failures_while_connecting [OF assms(1,2) this, of B w] assms
  show ?thesis by (simp add: reconnect_def)
qed

lemma exhausted_is_final:
  "phase u = Exhausted \<Longrightarrow> run_feed B evs (u, w) = (u, w)"
proof (induction evs)
  case Nil
  show ?case by (simp add: run_feed_def)
next
  case (Cons ev evs)
  from Cons.prems have "feed_step B ev (u, w) = (u, w)" by (cases ev) simp_all
  with Cons show ?case by (simp add: run_feed_def)
qed


text \<open>
  A world whose manager has been initialized with two symbols, with the new socket that
  \<open>setupSocket\<close> creates: after five failures in a row, after six, and after a connection
  that was opened is lost and five retries fail.
\<close>

lemma five_failures:
  "(feed_step int_builtins AttemptFails ^^ 5) (setupSocket, (snd (initialize [JStr ''VIC'', JStr ''VHM''] True
       (example_world\<lparr>realtimeManager := newRealtimeManager\<rparr>))))
   = (\<lparr>phase = Connecting, backoff_attempts = 5, issued = 6, reconnection = True,
       reconnectionAttempts = 5\<rparr>,
      (on_connect_error ^^ 5) (snd (initialize [JStr ''VIC'', JStr ''VHM''] True
       (example_world\<lparr>realtimeManager := newRealtimeManager\<rparr>))))"
  by (simp add: eval_nat_numeral setupSocket_def reconnect_def)

lemma six_failures:
  "(feed_step int_builtins AttemptFails ^^ 6) (setupSocket, (snd (initialize [JStr ''VIC'', JStr ''VHM''] True
       (example_world\<lparr>realtimeManager := newRealtimeManager\<rparr>))))
   = (\<lparr>phase = Exhausted, backoff_attempts = 0, issued = 6, reconnection = True,
       reconnectionAttempts = 5\<rparr>,
      (on_connect_error ^^ 6) (snd (initialize [JStr ''VIC'', JStr ''VHM''] True
       (example_world\<lparr>realtimeManager := newRealtimeManager\<rparr>))))"
  by (simp add: eval_nat_numeral setupSocket_def reconnect_def)

lemma initialized_manager:
  "realtimeManager (snd (initialize [JStr ''VIC'', JStr ''VHM''] True
       (example_world\<lparr>realtimeManager := newRealtimeManager\<rparr>)))
   = \<lparr>has_socket = True, isConnected = False, reconnectAttempts = 0, maxReconnectAttempts = 5,
      feed_symbols = [JStr ''VIC'', JStr ''VHM'']\<rparr>"
  by (simp add: initialize_def Let_def newRealtimeManager_def)



end
